theory Spec2Isabelle
  imports Complex_Main "HOL-Library.AList" "HOL-Library.Word"
begin

section \<open>JavaScript values returned by JSON.parse\<close>

text \<open>
  The dependency checker (\<^verbatim>\<open>DependencyChecker.tsx\<close>) works on whatever \<^verbatim>\<open>JSON.parse\<close>
  returns. A number is a double: the component only ever asks whether it is zero (truthiness),
  and \<^verbatim>\<open>JSON.stringify\<close> only whether it is finite, so a finite number is kept as its
  rational value (both zeros are \<open>Finite 0\<close>) and the two infinities, which a literal such as
  \<^verbatim>\<open>1e999\<close> parses to, are values of their own. An object is the list of its own enumerable
  properties in enumeration order; the platform never builds one with a repeated key.
  In the dependency checker a \<open>char\<close> stands for one code unit of a JavaScript string,
  so manifests are modelled with the code units below 256; no exception of the checker
  depends on a code unit.
\<close>

datatype jsnumber = Finite rat | PosInfinity | NegInfinity

datatype json =
    JNull
  | JBool bool
  | JNum jsnumber
  | JStr string
  | JArr "json list"
  | JObj "(string \<times> json) list"

text \<open>
  The exceptions of the model: \<^verbatim>\<open>JSON.parse\<close> throws a SyntaxError, a property read of
  \<^verbatim>\<open>null\<close>, a call of a missing method and a strict-mode assignment to a read-only index a
  TypeError, \<^verbatim>\<open>encodeURIComponent\<close> a URIError.
\<close>

datatype error = SyntaxError | TypeError | URIError

text \<open>Truthiness of a value read from a property; \<open>None\<close> is \<^verbatim>\<open>undefined\<close>.\<close>

fun truthy :: "json option \<Rightarrow> bool" where
  "truthy None = False"
| "truthy (Some JNull) = False"
| "truthy (Some (JBool b)) = b"
| "truthy (Some (JNum n)) = (n \<noteq> Finite 0)"
| "truthy (Some (JStr s)) = (s \<noteq> [])"
| "truthy (Some (JArr xs)) = True"
| "truthy (Some (JObj kvs)) = True"

text \<open>
  \<^verbatim>\<open>parsed.dependencies\<close>, \<^verbatim>\<open>parsed.devDependencies\<close>, \<^verbatim>\<open>parsed.peerDependencies\<close>,
  \<^verbatim>\<open>parsed.name\<close> and \<^verbatim>\<open>parsed.version\<close>: reading a property of \<^verbatim>\<open>null\<close> throws a
  TypeError; an object gives the property's value or \<^verbatim>\<open>undefined\<close>; a number, a boolean, a
  string and an array have none of these five properties, own or inherited.
\<close>

fun manifest_field :: "json \<Rightarrow> string \<Rightarrow> error + json option" where
  "manifest_field JNull k = Inl TypeError"
| "manifest_field (JObj kvs) k = Inr (map_of kvs k)"
| "manifest_field v k = Inr None"

text \<open>Decimal text of an array index or of a counter, as template literals print it.\<close>

fun string_of_nat :: "nat \<Rightarrow> string" where
  "string_of_nat n =
     (if n < 10 then [''0123456789'' ! n]
      else string_of_nat (n div 10) @ [''0123456789'' ! (n mod 10)])"

declare string_of_nat.simps [simp del]

fun index_entries :: "nat \<Rightarrow> 'a list \<Rightarrow> (string \<times> 'a) list" where
  "index_entries i [] = []"
| "index_entries i (x # xs) = (string_of_nat i, x) # index_entries (Suc i) xs"

text \<open>
  \<^verbatim>\<open>Object.entries\<close> of a truthy value: the properties of an object, the indexed elements of
  an array, the indexed one-unit strings of a string, nothing for a number or a boolean.
\<close>

fun Object_entries :: "json \<Rightarrow> (string \<times> json) list" where
  "Object_entries (JObj kvs) = kvs"
| "Object_entries (JArr xs) = index_entries 0 xs"
| "Object_entries (JStr s) = index_entries 0 (map (\<lambda>c. JStr [c]) s)"
| "Object_entries v = []"

definition Object_keys :: "json \<Rightarrow> string list" where
  "Object_keys v = map fst (Object_entries v)"

section \<open>The dependency checker\<close>

datatype dep_type = Dependencies | DevDependencies | PeerDependencies

record Dependency =
  name :: string
  version :: string
  type :: dep_type

record DependencyAnalysis =
  total :: nat
  dependencies :: nat
  devDependencies :: nat
  peerDependencies :: nat
  specificVersions :: nat
  rangeVersions :: nat
  latestVersions :: nat
  issues :: "string list"

definition startsWith :: "string \<Rightarrow> string \<Rightarrow> bool" where
  "startsWith s p = (take (length p) s = p)"

text \<open>
  The locals of \<^verbatim>\<open>analyzePackageJson\<close> that the three loops update: \<^verbatim>\<open>deps\<close>, then the
  counters \<^verbatim>\<open>specificVersions\<close>, \<^verbatim>\<open>rangeVersions\<close> and \<^verbatim>\<open>latestVersions\<close>.
\<close>

type_synonym tally = "Dependency list \<times> nat \<times> nat \<times> nat"

text \<open>The if-chain of lines 64 to 70, on a version that is a string.\<close>

fun count_version :: "string \<Rightarrow> nat \<times> nat \<times> nat \<Rightarrow> nat \<times> nat \<times> nat" where
  "count_version versionStr (specificV, rangeV, latestV) =
     (if startsWith versionStr ''^'' \<or> startsWith versionStr ''~''
        then (specificV, Suc rangeV, latestV)
      else if versionStr = ''latest''
        then (specificV, rangeV, Suc latestV)
      else (Suc specificV, rangeV, latestV))"

text \<open>
  One call of the \<^verbatim>\<open>forEach\<close> callback. A value that is not a string has no
  \<^verbatim>\<open>startsWith\<close> method, so the call throws a TypeError (the record pushed just before is
  lost with the local array).
\<close>

fun extract_entry :: "dep_type \<Rightarrow> string \<times> json \<Rightarrow> tally \<Rightarrow> error + tally" where
  "extract_entry ty (nm, JStr versionStr) (deps, counters) =
     Inr (deps @ [\<lparr>name = nm, version = versionStr, type = ty\<rparr>],
          count_version versionStr counters)"
| "extract_entry ty (nm, v) acc = Inl TypeError"

fun extract_entries :: "dep_type \<Rightarrow> (string \<times> json) list \<Rightarrow> tally \<Rightarrow> error + tally" where
  "extract_entries ty [] acc = Inr acc"
| "extract_entries ty (e # es) acc =
     (case extract_entry ty e acc of
        Inl err \<Rightarrow> Inl err
      | Inr acc' \<Rightarrow> extract_entries ty es acc')"

text \<open>\<^verbatim>\<open>if (parsed.X) { Object.entries(parsed.X).forEach(...) }\<close>\<close>

fun extract_section :: "dep_type \<Rightarrow> json option \<Rightarrow> tally \<Rightarrow> error + tally" where
  "extract_section ty None acc = Inr acc"
| "extract_section ty (Some sec) acc =
     (if truthy (Some sec) then extract_entries ty (Object_entries sec) acc else Inr acc)"

text \<open>\<^verbatim>\<open>parsed.X ? Object.keys(parsed.X).length : 0\<close>\<close>

fun section_size :: "json option \<Rightarrow> nat" where
  "section_size None = 0"
| "section_size (Some sec) = (if truthy (Some sec) then length (Object_keys sec) else 0)"

definition latest_issue :: "nat \<Rightarrow> string" where
  \<open>latest_issue n =
     string_of_nat n @ '' package(s) using "latest" version (not recommended for production)''\<close>

definition deprecatedPackages :: "string list" where
  "deprecatedPackages = [''request'', ''node-uuid'', ''gulp-util'']"

definition deprecated_issue :: "string \<Rightarrow> string" where
  \<open>deprecated_issue nm = ''"'' @ nm @ ''" is deprecated and should be replaced''\<close>

text \<open>The last loop: \<^verbatim>\<open>deps.forEach(dep => { if (...includes(dep.name)) issues.push(...) })\<close>\<close>

fun push_deprecated :: "Dependency list \<Rightarrow> string list \<Rightarrow> string list" where
  "push_deprecated [] iss = iss"
| "push_deprecated (dep # deps) iss =
     push_deprecated deps
       (if name dep \<in> set deprecatedPackages then iss @ [deprecated_issue (name dep)] else iss)"

text \<open>Lines 106 to 129: the issue list, pushed in program order.\<close>

definition build_issues :: "Dependency list \<Rightarrow> nat \<Rightarrow> json option \<Rightarrow> json option \<Rightarrow> string list" where
  "build_issues deps latestV nameField versionField =
     (let iss = [];
          iss = (if latestV > 0 then iss @ [latest_issue latestV] else iss);
          iss = (if length deps = 0 then iss @ [''No dependencies found''] else iss);
          iss = (if \<not> truthy nameField then iss @ [''Package name is missing''] else iss);
          iss = (if \<not> truthy versionField then iss @ [''Package version is missing''] else iss)
      in push_deprecated deps iss)"

text \<open>
  The body of the \<^verbatim>\<open>try\<close> block after \<^verbatim>\<open>JSON.parse\<close> (lines 51 to 141): either an exception
  or the two values handed to \<^verbatim>\<open>setDependencies\<close> and \<^verbatim>\<open>setAnalysis\<close>.
\<close>

definition analyze_parsed :: "json \<Rightarrow> error + (Dependency list \<times> DependencyAnalysis)" where
  "analyze_parsed parsed =
     (case manifest_field parsed ''dependencies'' of
        Inl err \<Rightarrow> Inl err
      | Inr depsField \<Rightarrow>
     (case extract_section Dependencies depsField ([], 0, 0, 0) of
        Inl err \<Rightarrow> Inl err
      | Inr acc1 \<Rightarrow>
     (case manifest_field parsed ''devDependencies'' of
        Inl err \<Rightarrow> Inl err
      | Inr devField \<Rightarrow>
     (case extract_section DevDependencies devField acc1 of
        Inl err \<Rightarrow> Inl err
      | Inr acc2 \<Rightarrow>
     (case manifest_field parsed ''peerDependencies'' of
        Inl err \<Rightarrow> Inl err
      | Inr peerField \<Rightarrow>
     (case extract_section PeerDependencies peerField acc2 of
        Inl err \<Rightarrow> Inl err
      | Inr (deps, specificV, rangeV, latestV) \<Rightarrow>
     (case manifest_field parsed ''name'' of
        Inl err \<Rightarrow> Inl err
      | Inr nameField \<Rightarrow>
     (case manifest_field parsed ''version'' of
        Inl err \<Rightarrow> Inl err
      | Inr versionField \<Rightarrow>
          Inr (deps,
               \<lparr>total = length deps,
                dependencies = section_size depsField,
                devDependencies = section_size devField,
                peerDependencies = section_size peerField,
                specificVersions = specificV,
                rangeVersions = rangeV,
                latestVersions = latestV,
                issues = build_issues deps latestV nameField versionField\<rparr>)))))))))"

text \<open>
  \<^verbatim>\<open>JSON.parse\<close> belongs to the platform: it is a parameter, \<open>None\<close> standing for the
  SyntaxError it throws on text that is not JSON.
\<close>

definition analyze :: "(string \<Rightarrow> json option) \<Rightarrow> string \<Rightarrow> error + (Dependency list \<times> DependencyAnalysis)" where
  "analyze parse jsonContent =
     (case parse jsonContent of
        None \<Rightarrow> Inl SyntaxError
      | Some parsed \<Rightarrow> analyze_parsed parsed)"

text \<open>
  The component's state (its four \<^verbatim>\<open>useState\<close> cells). Toast notifications are
  presentation and are left out; the 500 ms timer only delays the callback, so
  \<^verbatim>\<open>analyzePackageJson\<close> is the state once the callback has run: the \<^verbatim>\<open>try\<close> branch sets
  both cells, the \<^verbatim>\<open>catch\<close> branch clears both, \<^verbatim>\<open>finally\<close> resets the flag.
\<close>

record checker_state =
  packageJson :: string
  dependencies :: "Dependency list"
  analysis :: "DependencyAnalysis option"
  isAnalyzing :: bool

definition analyzePackageJson :: "(string \<Rightarrow> json option) \<Rightarrow> string \<Rightarrow> checker_state \<Rightarrow> checker_state" where
  "analyzePackageJson parse jsonContent st =
     (let st = st\<lparr>isAnalyzing := True\<rparr> in
      case analyze parse jsonContent of
        Inr (deps, a) \<Rightarrow> st\<lparr>dependencies := deps, analysis := Some a, isAnalyzing := False\<rparr>
      | Inl err \<Rightarrow> st\<lparr>dependencies := [], analysis := None, isAnalyzing := False\<rparr>)"

subsection \<open>Updating every version to latest\<close>

text \<open>
  \<^verbatim>\<open>Object.keys(sec).forEach(key => { sec[key] = "latest" })\<close> on a truthy section. An object
  and an array are updated key by key. The component is an ES module, hence strict code:
  assigning to an index of a primitive string throws a TypeError. A number or a boolean has
  no keys.
\<close>

fun set_all_latest :: "json \<Rightarrow> error + json" where
  "set_all_latest (JObj kvs) =
     Inr (JObj (fold (\<lambda>key. AList.update key (JStr ''latest'')) (map fst kvs) kvs))"
| "set_all_latest (JArr xs) =
     Inr (JArr (fold (\<lambda>i ys. ys[i := JStr ''latest'']) [0..<length xs] xs))"
| "set_all_latest (JStr s) = (if s = [] then Inr (JStr s) else Inl TypeError)"
| "set_all_latest v = Inr v"

text \<open>The section object is mutated in place, so the manifest sees the new values.\<close>

fun store_field :: "string \<Rightarrow> json \<Rightarrow> json \<Rightarrow> json" where
  "store_field k v (JObj kvs) = JObj (AList.update k v kvs)"
| "store_field k v parsed = parsed"

definition rewrite_section :: "string \<Rightarrow> json \<Rightarrow> error + json" where
  "rewrite_section k parsed =
     (case manifest_field parsed k of
        Inl err \<Rightarrow> Inl err
      | Inr None \<Rightarrow> Inr parsed
      | Inr (Some sec) \<Rightarrow>
          if truthy (Some sec)
          then (case set_all_latest sec of
                  Inl err \<Rightarrow> Inl err
                | Inr sec' \<Rightarrow> Inr (store_field k sec' parsed))
          else Inr parsed)"

definition rewrite_parsed :: "json \<Rightarrow> error + json" where
  "rewrite_parsed parsed =
     (case rewrite_section ''dependencies'' parsed of
        Inl err \<Rightarrow> Inl err
      | Inr p1 \<Rightarrow>
     (case rewrite_section ''devDependencies'' p1 of
        Inl err \<Rightarrow> Inl err
      | Inr p2 \<Rightarrow> rewrite_section ''peerDependencies'' p2))"

text \<open>
  \<^verbatim>\<open>JSON.stringify(parsed, null, 2)\<close> is the platform's as well, and a parameter. The text
  the handler stores in \<^verbatim>\<open>packageJson\<close>, or the exception its \<^verbatim>\<open>catch\<close> swallows:
\<close>

definition rewriteAllVersionsToLatest ::
  "(string \<Rightarrow> json option) \<Rightarrow> (json \<Rightarrow> string) \<Rightarrow> string \<Rightarrow> error + string" where
  "rewriteAllVersionsToLatest parse stringify txt =
     (case parse txt of
        None \<Rightarrow> Inl SyntaxError
      | Some parsed \<Rightarrow>
          (case rewrite_parsed parsed of
             Inl err \<Rightarrow> Inl err
           | Inr parsed' \<Rightarrow> Inr (stringify parsed')))"

definition updateToLatestVersions ::
  "(string \<Rightarrow> json option) \<Rightarrow> (json \<Rightarrow> string) \<Rightarrow> checker_state \<Rightarrow> checker_state" where
  "updateToLatestVersions parse stringify st =
     (case rewriteAllVersionsToLatest parse stringify (packageJson st) of
        Inl err \<Rightarrow> st
      | Inr updatedJson \<Rightarrow>
          analyzePackageJson parse updatedJson (st\<lparr>packageJson := updatedJson\<rparr>))"

text \<open>
  What parsing a serialised value gives back: \<^verbatim>\<open>JSON.stringify\<close> prints a number that is
  not finite as \<^verbatim>\<open>null\<close>, and everything else \<^verbatim>\<open>JSON.parse\<close> can have produced reads back
  as it was.
\<close>

primrec reserialized :: "json \<Rightarrow> json" where
  "reserialized JNull = JNull"
| "reserialized (JBool b) = JBool b"
| "reserialized (JNum n) = (case n of Finite r \<Rightarrow> JNum n | PosInfinity \<Rightarrow> JNull | NegInfinity \<Rightarrow> JNull)"
| "reserialized (JStr s) = JStr s"
| "reserialized (JArr xs) = JArr (map reserialized xs)"
| "reserialized (JObj kvs) = JObj (map (map_prod id reserialized) kvs)"

text \<open>The keys of a section are pairwise different, as in every object of the platform.\<close>

fun distinct_keys :: "json option \<Rightarrow> bool" where
  "distinct_keys (Some (JObj kvs)) = distinct (map fst kvs)"
| "distinct_keys field = True"

section \<open>Badge templates\<close>

text \<open>
  \<^verbatim>\<open>BadgeSelector.tsx\<close> and \<^verbatim>\<open>ReadmeGenerator.tsx\<close> work on text the user types, which can
  hold any UTF-16 code unit, a lone surrogate included. A string of these two components is
  the list of its code units; \<open>js\<close> gives the code units of a literal of the source.
\<close>

type_synonym jsstring = "16 word list"

definition js :: "string \<Rightarrow> jsstring" where
  "js s = map of_char s"

text \<open>
  A badge as the form stores it (\<open>badge_id\<close> is its \<^verbatim>\<open>id\<close>); the three optional fields
  are \<^verbatim>\<open>undefined\<close> (\<open>None\<close>) when the form field was empty.
\<close>

record Badge =
  badge_id :: jsstring
  type :: jsstring
  url :: jsstring
  label :: "jsstring option"
  message :: "jsstring option"
  color :: "jsstring option"

text \<open>
  A catalog entry. The validation pattern \<^verbatim>\<open>urlPattern\<close> is a regular expression that
  only the form reads; it is not part of this model. Rendering returns the markdown or the
  exception that \<^verbatim>\<open>encodeURIComponent\<close> threw.
\<close>

record BadgeTemplate =
  type :: jsstring
  label :: jsstring
  description :: jsstring
  urlPlaceholder :: jsstring
  urlExample :: jsstring
  generateMarkdown ::
    "jsstring \<Rightarrow> jsstring option \<Rightarrow> jsstring option \<Rightarrow> jsstring option \<Rightarrow> error + jsstring"

text \<open>A default parameter value replaces \<^verbatim>\<open>undefined\<close> only.\<close>

fun default_arg :: "jsstring \<Rightarrow> jsstring option \<Rightarrow> jsstring" where
  "default_arg d None = d"
| "default_arg d (Some s) = s"

text \<open>
  The ten templates, in source order. \<^verbatim>\<open>encodeURIComponent\<close> is the platform's and a
  parameter: it returns the encoded text, or throws a URIError (\<open>Inl\<close>) when its argument
  has a lone surrogate. A template literal evaluates its parts from left to right.
\<close>

definition badgeTemplates :: "(jsstring \<Rightarrow> error + jsstring) \<Rightarrow> BadgeTemplate list" where
  "badgeTemplates encodeURIComponent =
   [\<lparr>BadgeTemplate.type = js ''npm-version'', label = js ''NPM Version'',
     description = js ''Shows the current npm package version'',
     urlPlaceholder = js ''package-name'', urlExample = js ''react'',
     generateMarkdown = (\<lambda>url label message color.
       Inr (js ''![npm](https://img.shields.io/npm/v/'' @ url @ js '')''))\<rparr>,
    \<lparr>BadgeTemplate.type = js ''npm-downloads'', label = js ''NPM Downloads'',
     description = js ''Shows npm package download count'',
     urlPlaceholder = js ''package-name'', urlExample = js ''react'',
     generateMarkdown = (\<lambda>url label message color.
       Inr (js ''![npm](https://img.shields.io/npm/dm/'' @ url @ js '')''))\<rparr>,
    \<lparr>BadgeTemplate.type = js ''github-stars'', label = js ''GitHub Stars'',
     description = js ''Shows GitHub repository stars'',
     urlPlaceholder = js ''username/repo'', urlExample = js ''facebook/react'',
     generateMarkdown = (\<lambda>url label message color.
       Inr (js ''![GitHub stars](https://img.shields.io/github/stars/'' @ url @ js '')''))\<rparr>,
    \<lparr>BadgeTemplate.type = js ''github-forks'', label = js ''GitHub Forks'',
     description = js ''Shows GitHub repository forks'',
     urlPlaceholder = js ''username/repo'', urlExample = js ''facebook/react'',
     generateMarkdown = (\<lambda>url label message color.
       Inr (js ''![GitHub forks](https://img.shields.io/github/forks/'' @ url @ js '')''))\<rparr>,
    \<lparr>BadgeTemplate.type = js ''github-issues'', label = js ''GitHub Issues'',
     description = js ''Shows open GitHub issues'',
     urlPlaceholder = js ''username/repo'', urlExample = js ''facebook/react'',
     generateMarkdown = (\<lambda>url label message color.
       Inr (js ''![GitHub issues](https://img.shields.io/github/issues/'' @ url @ js '')''))\<rparr>,
    \<lparr>BadgeTemplate.type = js ''github-license'', label = js ''GitHub License'',
     description = js ''Shows repository license'',
     urlPlaceholder = js ''username/repo'', urlExample = js ''facebook/react'',
     generateMarkdown = (\<lambda>url label message color.
       Inr (js ''![GitHub license](https://img.shields.io/github/license/'' @ url @ js '')''))\<rparr>,
    \<lparr>BadgeTemplate.type = js ''build-status'', label = js ''Build Status'',
     description = js ''Shows CI/CD build status'',
     urlPlaceholder = js ''https://ci-service.com/status-url'',
     urlExample = js ''https://github.com/user/repo/actions'',
     generateMarkdown = (\<lambda>url label message color.
       Inr (js ''![Build Status](https://img.shields.io/badge/build-passing-brightgreen)''))\<rparr>,
    \<lparr>BadgeTemplate.type = js ''coverage'', label = js ''Code Coverage'',
     description = js ''Shows test coverage percentage'',
     urlPlaceholder = js ''https://codecov.io/gh/user/repo'',
     urlExample = js ''https://codecov.io/gh/facebook/react'',
     generateMarkdown = (\<lambda>url label message color.
       Inr (js ''![Coverage](https://img.shields.io/badge/coverage-95%25-brightgreen)''))\<rparr>,
    \<lparr>BadgeTemplate.type = js ''license'', label = js ''License Badge'',
     description = js ''Custom license badge'',
     urlPlaceholder = js ''MIT'', urlExample = js ''MIT'',
     generateMarkdown = (\<lambda>url label message color.
       case encodeURIComponent url of
         Inl err \<Rightarrow> Inl err
       | Inr encodedUrl \<Rightarrow>
           Inr (js ''![License](https://img.shields.io/badge/license-'' @ encodedUrl @
                js ''-blue)''))\<rparr>,
    \<lparr>BadgeTemplate.type = js ''custom'', label = js ''Custom Badge'',
     description = js ''Create a custom badge with label and message'',
     urlPlaceholder = js ''Enter badge text'', urlExample = js ''custom'',
     generateMarkdown = (\<lambda>url label message color.
       case encodeURIComponent (default_arg (js ''label'') label) of
         Inl err \<Rightarrow> Inl err
       | Inr encodedLabel \<Rightarrow>
       (case encodeURIComponent (default_arg (js ''message'') message) of
         Inl err \<Rightarrow> Inl err
       | Inr encodedMessage \<Rightarrow>
           Inr (js ''!['' @ default_arg (js ''label'') label @
                js ''](https://img.shields.io/badge/'' @ encodedLabel @ js ''-'' @
                encodedMessage @ js ''-'' @ default_arg (js ''blue'') color @ js '')'')))\<rparr>]"

text \<open>\<^verbatim>\<open>badgeTemplates.find(t => t.type === ty)\<close>\<close>

definition find_template ::
  "(jsstring \<Rightarrow> error + jsstring) \<Rightarrow> jsstring \<Rightarrow> BadgeTemplate option" where
  "find_template encodeURIComponent ty =
     find (\<lambda>t. BadgeTemplate.type t = ty) (badgeTemplates encodeURIComponent)"

definition generateBadgeMarkdown ::
  "(jsstring \<Rightarrow> error + jsstring) \<Rightarrow> Badge \<Rightarrow> error + jsstring" where
  "generateBadgeMarkdown encodeURIComponent badge =
     (case find_template encodeURIComponent (Badge.type badge) of
        None \<Rightarrow> Inr []
      | Some template \<Rightarrow>
          generateMarkdown template (url badge) (Badge.label badge) (message badge) (color badge))"

section \<open>The README generator\<close>

text \<open>\<^verbatim>\<open>ReadmeGenerator.tsx\<close>: the nine state cells that \<^verbatim>\<open>generateReadme\<close> reads.\<close>

record readme_state =
  projectName :: jsstring
  description :: jsstring
  installation :: jsstring
  usage :: jsstring
  features :: jsstring
  selectedLicenses :: "jsstring list"
  author :: jsstring
  contributing :: jsstring
  badges :: "Badge list"

text \<open>\<^verbatim>\<open>s.split("\n")\<close>: the pieces between the separators, one more than there are separators.\<close>

fun split_on :: "'a \<Rightarrow> 'a list \<Rightarrow> 'a list list" where
  "split_on sep [] = [] # []"
| "split_on sep (c # cs) =
     (if c = sep then [] # split_on sep cs
      else (case split_on sep cs of
              [] \<Rightarrow> [c] # []
            | piece # pieces \<Rightarrow> (c # piece) # pieces))"

text \<open>
  The code units that \<^verbatim>\<open>trim\<close> removes: the white space of the language (tab, vertical
  tab, form feed, the byte order mark and the space separators of Unicode) and its line
  terminators (line feed, carriage return, line and paragraph separator).
\<close>

definition is_space :: "16 word \<Rightarrow> bool" where
  "is_space c =
     (c \<in> {0x0009, 0x000A, 0x000B, 0x000C, 0x000D, 0x0020, 0x00A0, 0x1680,
            0x2000, 0x2001, 0x2002, 0x2003, 0x2004, 0x2005, 0x2006, 0x2007, 0x2008, 0x2009,
            0x200A, 0x2028, 0x2029, 0x202F, 0x205F, 0x3000, 0xFEFF})"

definition trim :: "jsstring \<Rightarrow> jsstring" where
  "trim s = rev (dropWhile is_space (rev (dropWhile is_space s)))"

text \<open>
  The three \<^verbatim>\<open>forEach\<close> loops of \<^verbatim>\<open>generateReadme\<close>, each appending to \<^verbatim>\<open>readme\<close>. An
  exception thrown while a badge renders leaves the loop and the function.
\<close>

fun append_badges ::
  "(jsstring \<Rightarrow> error + jsstring) \<Rightarrow> Badge list \<Rightarrow> jsstring \<Rightarrow> error + jsstring" where
  "append_badges encodeURIComponent [] readme = Inr readme"
| "append_badges encodeURIComponent (badge # rest) readme =
     (case find_template encodeURIComponent (Badge.type badge) of
        None \<Rightarrow> append_badges encodeURIComponent rest readme
      | Some template \<Rightarrow>
          (case generateMarkdown template (url badge) (Badge.label badge) (message badge)
                  (color badge) of
             Inl err \<Rightarrow> Inl err
           | Inr markdown \<Rightarrow>
               append_badges encodeURIComponent rest (readme @ markdown @ js '' '')))"

fun append_features :: "jsstring list \<Rightarrow> jsstring \<Rightarrow> jsstring" where
  "append_features [] readme = readme"
| "append_features (feature # rest) readme =
     append_features rest (readme @ js ''- '' @ trim feature @ js ''\<newline>'')"

fun append_licenses :: "jsstring list \<Rightarrow> jsstring \<Rightarrow> jsstring" where
  "append_licenses [] readme = readme"
| "append_licenses (license # rest) readme =
     append_licenses rest (readme @ js ''- '' @ license @ js ''\<newline>'')"

definition placeholder :: jsstring where
  "placeholder = js ''# My Project\<newline>\<newline>Add project details to generate README''"

definition generateReadme ::
  "(jsstring \<Rightarrow> error + jsstring) \<Rightarrow> readme_state \<Rightarrow> error + jsstring" where
  "generateReadme encodeURIComponent st =
     (let readme = [];
          readme = (if projectName st \<noteq> []
                    then readme @ js ''# '' @ projectName st @ js ''\<newline>\<newline>''
                    else readme)
      in
      case (if length (badges st) > 0
            then (case append_badges encodeURIComponent (badges st) readme of
                    Inl err \<Rightarrow> Inl err
                  | Inr readme \<Rightarrow> Inr (readme @ js ''\<newline>\<newline>''))
            else Inr readme) of
        Inl err \<Rightarrow> Inl err
      | Inr readme \<Rightarrow>
     (let readme = (if description st \<noteq> []
                    then readme @ js ''## Description\<newline>\<newline>'' @ description st @ js ''\<newline>\<newline>''
                    else readme);
          readme = (if features st \<noteq> []
                    then append_features
                           (filter (\<lambda>f. trim f \<noteq> []) (split_on 0x000A (features st)))
                           (readme @ js ''## Features\<newline>\<newline>'') @ js ''\<newline>''
                    else readme);
          readme = (if installation st \<noteq> []
                    then readme @ js ''## Installation\<newline>\<newline>```bash\<newline>'' @ installation st @
                         js ''\<newline>```\<newline>\<newline>''
                    else readme);
          readme = (if usage st \<noteq> []
                    then readme @ js ''## Usage\<newline>\<newline>```bash\<newline>'' @ usage st @
                         js ''\<newline>```\<newline>\<newline>''
                    else readme);
          readme = (if contributing st \<noteq> []
                    then readme @ js ''## Contributing\<newline>\<newline>'' @ contributing st @ js ''\<newline>\<newline>''
                    else readme);
          readme = (if length (selectedLicenses st) > 0
                    then (if length (selectedLicenses st) = 1
                          then readme @ js ''## License\<newline>\<newline>'' @
                               js ''This project is licensed under the '' @
                               selectedLicenses st ! 0 @ js '' License.\<newline>\<newline>''
                          else append_licenses (selectedLicenses st)
                                 (readme @ js ''## License\<newline>\<newline>'' @
                                  js ''This project is licensed under multiple licenses:\<newline>\<newline>'') @
                               js ''\<newline>'')
                    else readme);
          readme = (if author st \<noteq> []
                    then readme @ js ''## Author\<newline>\<newline>'' @ author st @ js ''\<newline>''
                    else readme)
      in Inr (if readme \<noteq> [] then readme else placeholder)))"

section \<open>The specification's vocabulary\<close>

text \<open>
  The three version classes in the specification's words: range-qualified when the first
  character is a caret or a tilde, latest-tagged when the text is exactly \<^verbatim>\<open>latest\<close>,
  pinned otherwise.
\<close>

datatype version_class = RangeQualified | LatestTagged | Pinned

fun classify :: "string \<Rightarrow> version_class" where
  "classify [] = Pinned"
| "classify (c # cs) =
     (if c = CHR ''^'' \<or> c = CHR ''~'' then RangeQualified
      else if c # cs = ''latest'' then LatestTagged
      else Pinned)"

definition class_count :: "version_class \<Rightarrow> Dependency list \<Rightarrow> nat" where
  "class_count c deps = length (filter (\<lambda>d. classify (version d) = c) deps)"

text \<open>The loop invariant of the three extraction loops: each counter counts its class.\<close>

fun tally_ok :: "tally \<Rightarrow> bool" where
  "tally_ok (deps, specificV, rangeV, latestV) =
     (specificV = class_count Pinned deps \<and>
      rangeV = class_count RangeQualified deps \<and>
      latestV = class_count LatestTagged deps)"

text \<open>
  The entries of one manifest section, when the section is present (truthy), and the entries
  of the three sections in the order the component visits them.
\<close>

fun field_entries :: "json option \<Rightarrow> (string \<times> json) list" where
  "field_entries None = []"
| "field_entries (Some sec) = (if truthy (Some sec) then Object_entries sec else [])"

text \<open>The value of a manifest property, \<open>None\<close> when there is none to read.\<close>

definition manifest_value :: "json \<Rightarrow> string \<Rightarrow> json option" where
  "manifest_value parsed k =
     (case manifest_field parsed k of
        Inr field \<Rightarrow> field
      | Inl err \<Rightarrow> None)"

definition section_entries :: "json \<Rightarrow> string \<Rightarrow> (string \<times> json) list" where
  "section_entries parsed k = field_entries (manifest_value parsed k)"

definition manifest_entries :: "json \<Rightarrow> (string \<times> json) list" where
  "manifest_entries parsed =
     section_entries parsed ''dependencies'' @
     section_entries parsed ''devDependencies'' @
     section_entries parsed ''peerDependencies''"

text \<open>The manifest entry a record was built from.\<close>

definition record_entry :: "Dependency \<Rightarrow> string \<times> json" where
  "record_entry d = (name d, JStr (version d))"

fun is_string :: "json \<Rightarrow> bool" where
  "is_string (JStr s) = True"
| "is_string v = False"

text \<open>Every entry of a section carries the version \<^verbatim>\<open>latest\<close>.\<close>

definition all_latest :: "(string \<times> json) list \<Rightarrow> bool" where
  "all_latest es = (\<forall>e \<in> set es. snd e = JStr ''latest'')"

text \<open>
  A dependency section that is a non-empty string: the one kind of section the update cannot
  assign into.
\<close>

fun string_section :: "json option \<Rightarrow> bool" where
  "string_section (Some (JStr s)) = (s \<noteq> [])"
| "string_section field = False"

definition has_string_section :: "json \<Rightarrow> bool" where
  "has_string_section parsed =
     (string_section (manifest_value parsed ''dependencies'') \<or>
      string_section (manifest_value parsed ''devDependencies'') \<or>
      string_section (manifest_value parsed ''peerDependencies''))"

subsection \<open>The sections of a generated README\<close>

text \<open>
  The nine sections in the specification's words. A line is blank when it has nothing but
  white space; every other line of the features field is one list item. The badges section
  is one rendered snippet for each badge of a known type, each followed by a space; the
  first rendering that throws ends the composition.
\<close>

definition blank :: "jsstring \<Rightarrow> bool" where
  "blank line = list_all is_space line"

definition feature_items :: "jsstring \<Rightarrow> jsstring list" where
  "feature_items text =
     map (\<lambda>line. js ''- '' @ trim line @ js ''\<newline>'')
       (filter (\<lambda>line. \<not> blank line) (split_on 0x000A text))"

definition fenced :: "jsstring \<Rightarrow> jsstring" where
  "fenced body = js ''```bash\<newline>'' @ body @ js ''\<newline>```\<newline>\<newline>''"

definition title_section :: "readme_state \<Rightarrow> jsstring" where
  "title_section st = js ''# '' @ projectName st @ js ''\<newline>\<newline>''"

fun rendered_badges ::
  "(jsstring \<Rightarrow> error + jsstring) \<Rightarrow> Badge list \<Rightarrow> error + jsstring" where
  "rendered_badges encodeURIComponent [] = Inr []"
| "rendered_badges encodeURIComponent (badge # rest) =
     (case generateBadgeMarkdown encodeURIComponent badge of
        Inl err \<Rightarrow> Inl err
      | Inr snippet \<Rightarrow>
     (case rendered_badges encodeURIComponent rest of
        Inl err \<Rightarrow> Inl err
      | Inr snippets \<Rightarrow>
          Inr ((if find_template encodeURIComponent (Badge.type badge) = None then []
                else snippet @ js '' '') @ snippets)))"

definition badges_section :: "jsstring \<Rightarrow> jsstring" where
  "badges_section snippets = snippets @ js ''\<newline>\<newline>''"

definition description_section :: "readme_state \<Rightarrow> jsstring" where
  "description_section st = js ''## Description\<newline>\<newline>'' @ description st @ js ''\<newline>\<newline>''"

definition features_section :: "readme_state \<Rightarrow> jsstring" where
  "features_section st =
     js ''## Features\<newline>\<newline>'' @ concat (feature_items (features st)) @ js ''\<newline>''"

definition installation_section :: "readme_state \<Rightarrow> jsstring" where
  "installation_section st = js ''## Installation\<newline>\<newline>'' @ fenced (installation st)"

definition usage_section :: "readme_state \<Rightarrow> jsstring" where
  "usage_section st = js ''## Usage\<newline>\<newline>'' @ fenced (usage st)"

definition contributing_section :: "readme_state \<Rightarrow> jsstring" where
  "contributing_section st = js ''## Contributing\<newline>\<newline>'' @ contributing st @ js ''\<newline>\<newline>''"

definition license_section :: "readme_state \<Rightarrow> jsstring" where
  "license_section st =
     js ''## License\<newline>\<newline>'' @
     (case selectedLicenses st of
        [license] \<Rightarrow>
          js ''This project is licensed under the '' @ license @ js '' License.\<newline>\<newline>''
      | licenses \<Rightarrow>
          js ''This project is licensed under multiple licenses:\<newline>\<newline>'' @
          concat (map (\<lambda>license. js ''- '' @ license @ js ''\<newline>'') licenses) @ js ''\<newline>'')"

definition author_section :: "readme_state \<Rightarrow> jsstring" where
  "author_section st = js ''## Author\<newline>\<newline>'' @ author st @ js ''\<newline>''"


text \<open>
  Rendering one badge throws: a license badge whose identifier, or a custom badge whose
  label or message (or its default), \<^verbatim>\<open>encodeURIComponent\<close> rejects.
\<close>

definition badge_throws :: "(jsstring \<Rightarrow> error + jsstring) \<Rightarrow> Badge \<Rightarrow> bool" where
  "badge_throws encodeURIComponent badge =
     ((Badge.type badge = js ''license'' \<and>
         (\<exists>err. encodeURIComponent (url badge) = Inl err)) \<or>
      (Badge.type badge = js ''custom'' \<and>
         ((\<exists>err. encodeURIComponent (default_arg (js ''label'') (Badge.label badge)) = Inl err) \<or>
          (\<exists>err. encodeURIComponent (default_arg (js ''message'') (message badge)) = Inl err))))"

section \<open>Example manifests\<close>

text \<open>
  What \<^verbatim>\<open>JSON.parse\<close> returns on the manifest texts used as examples below (\<open>None\<close>: it
  throws a SyntaxError). Only the listed texts are ever looked up.
\<close>

definition parse_examples :: "string \<Rightarrow> json option" where
  \<open>parse_examples t =
     (if t = ''{not json'' then None
      else if t = ''null'' then Some JNull
      else if t = ''5'' then Some (JNum (Finite 5))
      else if t = ''1e999'' then Some (JNum PosInfinity)
      else if t = ''{"name":"x","version":"1.0.0","dependencies":{"react":"^18.2.0","lodash":"4.17.21"},"devDependencies":{}}''
        then Some (JObj [(''name'', JStr ''x''), (''version'', JStr ''1.0.0''),
                         (''dependencies'', JObj [(''react'', JStr ''^18.2.0''), (''lodash'', JStr ''4.17.21'')]),
                         (''devDependencies'', JObj [])])
      else if t = ''{"dependencies":{"a":"^latest","b":"latest","c":"1.2.3"}}''
        then Some (JObj [(''dependencies'',
                          JObj [(''a'', JStr ''^latest''), (''b'', JStr ''latest''), (''c'', JStr ''1.2.3'')])])
      else if t = ''{"dependencies":"ab"}''
        then Some (JObj [(''dependencies'', JStr ''ab'')])
      else if t = ''{"dependencies":{"request":"1.0.0"}}''
        then Some (JObj [(''dependencies'', JObj [(''request'', JStr ''1.0.0'')])])
      else if t = ''{"name":"","version":"1.0.0","dependencies":{"react":"1.0.0"}}''
        then Some (JObj [(''name'', JStr []), (''version'', JStr ''1.0.0''),
                         (''dependencies'', JObj [(''react'', JStr ''1.0.0'')])])
      else if t = ''{"name":"x","version":"1.0.0","peerDependencies":{"left-pad":1}}''
        then Some (JObj [(''name'', JStr ''x''), (''version'', JStr ''1.0.0''),
                         (''peerDependencies'', JObj [(''left-pad'', JNum (Finite 1))])])
      else if t = ''{"name":"x","version":"1.0.0","dependencies":{"react":"^18.2.0"},"devDependencies":{"vite":"5.0.0"}}''
        then Some (JObj [(''name'', JStr ''x''), (''version'', JStr ''1.0.0''),
                         (''dependencies'', JObj [(''react'', JStr ''^18.2.0'')]),
                         (''devDependencies'', JObj [(''vite'', JStr ''5.0.0'')])])
      else if t = ''{\<newline>  "name": "x",\<newline>  "version": "1.0.0",\<newline>  "dependencies": {\<newline>    "react": "latest"\<newline>  },\<newline>  "devDependencies": {\<newline>    "vite": "latest"\<newline>  }\<newline>}''
        then Some (JObj [(''name'', JStr ''x''), (''version'', JStr ''1.0.0''),
                         (''dependencies'', JObj [(''react'', JStr ''latest'')]),
                         (''devDependencies'', JObj [(''vite'', JStr ''latest'')])])
      else None)\<close>

text \<open>What \<^verbatim>\<open>JSON.stringify(v, null, 2)\<close> returns on the values the examples serialise.\<close>

definition stringify_examples :: "json \<Rightarrow> string" where
  \<open>stringify_examples v =
     (if v = JNum PosInfinity then ''null''
      else if v = JObj [(''name'', JStr ''x''), (''version'', JStr ''1.0.0''),
                        (''dependencies'', JObj [(''react'', JStr ''latest'')]),
                        (''devDependencies'', JObj [(''vite'', JStr ''latest'')])]
        then ''{\<newline>  "name": "x",\<newline>  "version": "1.0.0",\<newline>  "dependencies": {\<newline>    "react": "latest"\<newline>  },\<newline>  "devDependencies": {\<newline>    "vite": "latest"\<newline>  }\<newline>}''
      else [])\<close>

section \<open>Example README inputs\<close>

text \<open>
  What \<^verbatim>\<open>encodeURIComponent\<close> does on the texts the examples encode: it throws on the lone
  surrogate U+D800, keeps letters and turns a space into \<^verbatim>\<open>%20\<close>. Only these texts are
  ever looked up.
\<close>

definition encode_examples :: "jsstring \<Rightarrow> error + jsstring" where
  "encode_examples s =
     (if s = [0xD800] then Inl URIError
      else if s = js ''build status'' then Inr (js ''build%20status'')
      else if s = js ''all green'' then Inr (js ''all%20green'')
      else Inr s)"

definition example_readme :: readme_state where
  "example_readme =
     \<lparr>projectName = js ''Dev-Tools'',
      description = js ''A simple tool for creating a readme.md file.'',
      installation = js ''npm install'',
      usage = [],
      features = js ''Easily add badges\<newline>\<newline>   \<newline>  Import your package.json  '',
      selectedLicenses = [js ''MIT'', js ''ISC''],
      author = js ''@star2knb'',
      contributing = [],
      badges = [\<lparr>badge_id = js ''k3j2h1g9a'', type = js ''github-stars'',
                 url = js ''Star2knb/Dev-Tools'',
                 label = None, message = None, color = Some (js ''blue'')\<rparr>,
                \<lparr>badge_id = js ''z0y9x8w7v'', type = js ''no-such-type'', url = js ''x'',
                 label = None, message = None, color = Some (js ''blue'')\<rparr>,
                \<lparr>badge_id = js ''q1w2e3r4t'', type = js ''custom'', url = js ''ci'',
                 label = Some (js ''build status''), message = Some (js ''all green''),
                 color = Some (js ''green'')\<rparr>]\<rparr>"

definition empty_readme :: readme_state where
  "empty_readme =
     \<lparr>projectName = [], description = [], installation = [], usage = [], features = [],
      selectedLicenses = [], author = [], contributing = [], badges = []\<rparr>"

text \<open>A project with one custom badge whose label is the lone surrogate U+D800.\<close>

definition surrogate_readme :: readme_state where
  "surrogate_readme =
     \<lparr>projectName = js ''Dev-Tools'', description = [], installation = js ''npm install'',
      usage = js ''npm start'', features = [], selectedLicenses = [js ''MIT''], author = [],
      contributing = [],
      badges = [\<lparr>badge_id = js ''q1w2e3r4t'', type = js ''custom'', url = js ''ci'',
                 label = Some [0xD800], message = None, color = Some (js ''blue'')\<rparr>]\<rparr>"

section \<open>Properties of the dependency checker\<close>

lemma startsWith_single: "startsWith s [c] = (\<exists>cs. s = c # cs)"
  by (cases s) (simp_all add: startsWith_def)

lemma count_version_class:
  "count_version v (s, r, l) =
     (case classify v of
        RangeQualified \<Rightarrow> (s, Suc r, l)
      | LatestTagged \<Rightarrow> (s, r, Suc l)
      | Pinned \<Rightarrow> (Suc s, r, l))"
  by (cases v) (auto simp: startsWith_single)

lemma class_count_snoc:
  "class_count c (deps @ [d]) = class_count c deps + (if classify (version d) = c then 1 else 0)"
  by (simp add: class_count_def)

lemma class_count_total:
  "class_count Pinned deps + class_count RangeQualified deps + class_count LatestTagged deps
     = length deps"
  unfolding class_count_def
  by (induction deps) (auto, metis version_class.exhaust)

lemma extract_entry_ok:
  "tally_ok acc \<Longrightarrow> extract_entry ty e acc = Inr acc' \<Longrightarrow> tally_ok acc'"
  by (cases "(ty, e, acc)" rule: extract_entry.cases)
     (auto simp: count_version_class class_count_snoc
           simp del: count_version.simps split: version_class.splits)

lemma extract_entries_ok:
  "tally_ok acc \<Longrightarrow> extract_entries ty es acc = Inr acc' \<Longrightarrow> tally_ok acc'"
  by (induction es arbitrary: acc) (auto split: sum.splits dest: extract_entry_ok)

lemma extract_section_ok:
  "tally_ok acc \<Longrightarrow> extract_section ty sec acc = Inr acc' \<Longrightarrow> tally_ok acc'"
  by (cases sec) (auto split: if_splits dest: extract_entries_ok)

lemma tally_ok_init: "tally_ok ([], 0, 0, 0)"
  by (simp add: class_count_def)

lemma analyze_parsed_Inr:
  assumes "analyze_parsed parsed = Inr (deps, a)"
  obtains f1 f2 f3 fn fv acc1 acc2 s r l where
    "manifest_field parsed ''dependencies'' = Inr f1"
    "manifest_field parsed ''devDependencies'' = Inr f2"
    "manifest_field parsed ''peerDependencies'' = Inr f3"
    "manifest_field parsed ''name'' = Inr fn"
    "manifest_field parsed ''version'' = Inr fv"
    "extract_section Dependencies f1 ([], 0, 0, 0) = Inr acc1"
    "extract_section DevDependencies f2 acc1 = Inr acc2"
    "extract_section PeerDependencies f3 acc2 = Inr (deps, s, r, l)"
    "a = \<lparr>total = length deps, dependencies = section_size f1,
          devDependencies = section_size f2, peerDependencies = section_size f3,
          specificVersions = s, rangeVersions = r, latestVersions = l,
          issues = build_issues deps l fn fv\<rparr>"
  using assms unfolding analyze_parsed_def
  by (auto split: sum.splits prod.splits)

lemma analyze_parsed_tally:
  assumes "analyze_parsed parsed = Inr (deps, a)"
  shows "tally_ok (deps, specificVersions a, rangeVersions a, latestVersions a)"
    and "total a = length deps"
proof -
  from assms obtain f1 f2 f3 fn fv acc1 acc2 s r l where
    e1: "extract_section Dependencies f1 ([], 0, 0, 0) = Inr acc1" and
    e2: "extract_section DevDependencies f2 acc1 = Inr acc2" and
    e3: "extract_section PeerDependencies f3 acc2 = Inr (deps, s, r, l)" and
    a: "a = \<lparr>total = length deps, dependencies = section_size f1,
          devDependencies = section_size f2, peerDependencies = section_size f3,
          specificVersions = s, rangeVersions = r, latestVersions = l,
          issues = build_issues deps l fn fv\<rparr>"
    by (rule analyze_parsed_Inr)
  have "tally_ok acc1" using tally_ok_init e1 by (rule extract_section_ok)
  then have "tally_ok acc2" using e2 by (rule extract_section_ok)
  then have "tally_ok (deps, s, r, l)" using e3 by (rule extract_section_ok)
  then show "tally_ok (deps, specificVersions a, rangeVersions a, latestVersions a)"
    by (simp add: a)
  show "total a = length deps" by (simp add: a)
qed

lemma analyze_Inr_parsed:
  "analyze parse txt = Inr r \<Longrightarrow> \<exists>parsed. parse txt = Some parsed \<and> analyze_parsed parsed = Inr r"
  by (auto simp: analyze_def split: option.splits)

text \<open>
  Claim C1. Whenever the analysis of a manifest text succeeds, the three version counters of
  the summary add up to its total, and the total is the number of records returned.
\<close>

theorem counters_sum_to_total:
  assumes "analyze parse txt = Inr (deps, a)"
  shows "specificVersions a + rangeVersions a + latestVersions a = total a \<and>
         total a = length deps"
proof -
  from assms obtain parsed where p: "analyze_parsed parsed = Inr (deps, a)"
    by (blast dest: analyze_Inr_parsed)
  have "tally_ok (deps, specificVersions a, rangeVersions a, latestVersions a)"
    using p by (rule analyze_parsed_tally)
  moreover have "total a = length deps"
    using p by (rule analyze_parsed_tally)
  ultimately show ?thesis
    using class_count_total [of deps] by simp
qed

lemma extract_section_field_entries:
  "extract_section ty field acc = extract_entries ty (field_entries field) acc"
  by (cases field) simp_all

lemma extract_entry_record:
  "extract_entry ty e (deps, cs) = Inr (deps', cs') \<Longrightarrow>
     map record_entry deps' = map record_entry deps @ [e]"
  by (cases "(ty, e, (deps, cs))" rule: extract_entry.cases)
     (auto simp: record_entry_def simp del: count_version.simps)

lemma extract_entries_records:
  "extract_entries ty es (deps, cs) = Inr (deps', cs') \<Longrightarrow>
     map record_entry deps' = map record_entry deps @ es"
proof (induction es arbitrary: deps cs)
  case Nil
  then show ?case by simp
next
  case (Cons e es)
  from Cons.prems obtain deps1 cs1 where
    s1: "extract_entry ty e (deps, cs) = Inr (deps1, cs1)" and
    s2: "extract_entries ty es (deps1, cs1) = Inr (deps', cs')"
    by (auto split: sum.splits)
  from Cons.IH [OF s2] extract_entry_record [OF s1] show ?case by simp
qed

lemma extract_entry_Inl:
  "(extract_entry ty e acc = Inl err) = (\<not> is_string (snd e) \<and> err = TypeError)"
  by (cases "(ty, e, acc)" rule: extract_entry.cases) (auto simp del: count_version.simps)

lemma extract_entries_Inl:
  "(extract_entries ty es acc = Inl err) =
     ((\<exists>e \<in> set es. \<not> is_string (snd e)) \<and> err = TypeError)"
proof (induction es arbitrary: acc)
  case Nil
  then show ?case by simp
next
  case (Cons e es)
  show ?case
  proof (cases "extract_entry ty e acc")
    case (Inl err')
    then show ?thesis using extract_entry_Inl [of ty e acc err'] by auto
  next
    case (Inr acc')
    moreover have "is_string (snd e)"
      using Inr extract_entry_Inl [of ty e acc TypeError] by auto
    ultimately show ?thesis using Cons.IH [of acc'] by auto
  qed
qed

lemma extract_entries_Inr_strings:
  assumes "extract_entries ty es acc = Inr acc'" and "e \<in> set es"
  shows "is_string (snd e)"
proof (rule ccontr)
  assume "\<not> is_string (snd e)"
  with assms(2) have "extract_entries ty es acc = Inl TypeError"
    by (auto simp: extract_entries_Inl)
  with assms(1) show False by simp
qed

lemma manifest_field_Inl:
  "(manifest_field parsed k = Inl err) = (parsed = JNull \<and> err = TypeError)"
  by (cases parsed) auto

lemma manifest_field_value:
  "parsed \<noteq> JNull \<Longrightarrow> manifest_field parsed k = Inr (manifest_value parsed k)"
  by (cases parsed) (auto simp: manifest_value_def)

lemma analyze_parsed_not_null: "analyze_parsed parsed = Inr r \<Longrightarrow> parsed \<noteq> JNull"
  by (auto simp: analyze_parsed_def)

lemma analyze_parsed_records:
  assumes "analyze_parsed parsed = Inr (deps, a)"
  shows "map record_entry deps = manifest_entries parsed"
proof -
  from assms obtain f1 f2 f3 acc1 acc2 s r l where
    m1: "manifest_field parsed ''dependencies'' = Inr f1" and
    m2: "manifest_field parsed ''devDependencies'' = Inr f2" and
    m3: "manifest_field parsed ''peerDependencies'' = Inr f3" and
    e1: "extract_section Dependencies f1 ([], 0, 0, 0) = Inr acc1" and
    e2: "extract_section DevDependencies f2 acc1 = Inr acc2" and
    e3: "extract_section PeerDependencies f3 acc2 = Inr (deps, s, r, l)"
    by (rule analyze_parsed_Inr)
  obtain d1 c1 where acc1: "acc1 = (d1, c1)" by (cases acc1)
  obtain d2 c2 where acc2: "acc2 = (d2, c2)" by (cases acc2)
  have "map record_entry d1 = field_entries f1"
    using e1 extract_entries_records [of Dependencies "field_entries f1" "[]" "(0, 0, 0)" d1 c1]
    by (simp add: acc1 extract_section_field_entries)
  moreover have "map record_entry d2 = map record_entry d1 @ field_entries f2"
    using e2 extract_entries_records [of DevDependencies "field_entries f2" d1 c1 d2 c2]
    by (simp add: acc1 acc2 extract_section_field_entries)
  moreover have "map record_entry deps = map record_entry d2 @ field_entries f3"
    using e3 extract_entries_records [of PeerDependencies "field_entries f3" d2 c2 deps "(s, r, l)"]
    by (simp add: acc2 extract_section_field_entries)
  ultimately show ?thesis
    using m1 m2 m3 by (simp add: manifest_entries_def section_entries_def manifest_value_def)
qed

lemma analyze_parsed_Inl:
  "(analyze_parsed parsed = Inl err) =
     ((parsed = JNull \<or> (\<exists>e \<in> set (manifest_entries parsed). \<not> is_string (snd e)))
      \<and> err = TypeError)"
proof (cases "parsed = JNull")
  case True
  then show ?thesis by (auto simp: analyze_parsed_def)
next
  case False
  note m = manifest_field_value [OF False]
  have me: "set (manifest_entries parsed) =
      set (field_entries (manifest_value parsed ''dependencies'')) \<union>
      set (field_entries (manifest_value parsed ''devDependencies'')) \<union>
      set (field_entries (manifest_value parsed ''peerDependencies''))"
    by (auto simp: manifest_entries_def section_entries_def)
  show ?thesis
    using False
    by (auto simp: analyze_parsed_def m me extract_section_field_entries extract_entries_Inl
        split: sum.splits prod.splits dest: extract_entries_Inr_strings)
qed

lemmas analyze_eval =
  analyze_def analyze_parsed_def parse_examples_def build_issues_def
  startsWith_def deprecatedPackages_def deprecated_issue_def Object_keys_def
  latest_issue_def string_of_nat.simps

theorem counters_sum_to_total_witness:
  \<open>analyze parse_examples
     ''{"name":"x","version":"1.0.0","dependencies":{"react":"^18.2.0","lodash":"4.17.21"},"devDependencies":{}}''
   = Inr ([\<lparr>name = ''react'', version = ''^18.2.0'', type = Dependencies\<rparr>,
           \<lparr>name = ''lodash'', version = ''4.17.21'', type = Dependencies\<rparr>],
          \<lparr>total = 2, dependencies = 2, devDependencies = 0, peerDependencies = 0,
           specificVersions = 1, rangeVersions = 1, latestVersions = 0, issues = []\<rparr>)
   \<and> (1::nat) + 1 + 0 = 2\<close>
proof -
  have ev: \<open>analyze parse_examples
     ''{"name":"x","version":"1.0.0","dependencies":{"react":"^18.2.0","lodash":"4.17.21"},"devDependencies":{}}''
   = Inr ([\<lparr>name = ''react'', version = ''^18.2.0'', type = Dependencies\<rparr>,
           \<lparr>name = ''lodash'', version = ''4.17.21'', type = Dependencies\<rparr>],
          \<lparr>total = 2, dependencies = 2, devDependencies = 0, peerDependencies = 0,
           specificVersions = 1, rangeVersions = 1, latestVersions = 0, issues = []\<rparr>)\<close>
    by (simp add: analyze_eval)
  from counters_sum_to_total [OF ev] show ?thesis using ev by simp
qed

text \<open>
  Claim C5. Each entry the loops process adds one record and bumps exactly one counter, the
  one of its version's class: range-qualified when the version starts with a caret or a
  tilde, latest-tagged when it is exactly \<^verbatim>\<open>latest\<close>, pinned otherwise. In an accepted
  analysis the records are the entries of the three sections in order, and each counter of
  the summary is the number of records of its class. So \<^verbatim>\<open>^latest\<close> counts as a range
  and \<^verbatim>\<open>latest\<close> only as latest.
\<close>

theorem versions_classified:
  assumes "parse txt = Some parsed" and "analyze parse txt = Inr (deps, a)"
  shows "extract_entry ty (nm, JStr v) (ds, s, r, l) =
           Inr (ds @ [\<lparr>name = nm, version = v, type = ty\<rparr>],
                (case classify v of
                   RangeQualified \<Rightarrow> (s, Suc r, l)
                 | LatestTagged \<Rightarrow> (s, r, Suc l)
                 | Pinned \<Rightarrow> (Suc s, r, l))) \<and>
         map record_entry deps = manifest_entries parsed \<and>
         rangeVersions a = class_count RangeQualified deps \<and>
         latestVersions a = class_count LatestTagged deps \<and>
         specificVersions a = class_count Pinned deps"
proof -
  from assms have p: "analyze_parsed parsed = Inr (deps, a)"
    by (simp add: analyze_def)
  have "tally_ok (deps, specificVersions a, rangeVersions a, latestVersions a)"
    using p by (rule analyze_parsed_tally)
  then show ?thesis
    using analyze_parsed_records [OF p]
    by (simp add: count_version_class del: count_version.simps)
qed

theorem versions_classified_witness:
  \<open>analyze parse_examples ''{"dependencies":{"a":"^latest","b":"latest","c":"1.2.3"}}''
   = Inr ([\<lparr>name = ''a'', version = ''^latest'', type = Dependencies\<rparr>,
           \<lparr>name = ''b'', version = ''latest'', type = Dependencies\<rparr>,
           \<lparr>name = ''c'', version = ''1.2.3'', type = Dependencies\<rparr>],
          \<lparr>total = 3, dependencies = 3, devDependencies = 0, peerDependencies = 0,
           specificVersions = 1, rangeVersions = 1, latestVersions = 1,
           issues = [''1 package(s) using "latest" version (not recommended for production)'',
                     ''Package name is missing'', ''Package version is missing'']\<rparr>)
   \<and> classify ''^latest'' = RangeQualified
   \<and> classify ''latest'' = LatestTagged
   \<and> classify ''1.2.3'' = Pinned
   \<and> class_count RangeQualified
        [\<lparr>name = ''a'', version = ''^latest'', type = Dependencies\<rparr>,
         \<lparr>name = ''b'', version = ''latest'', type = Dependencies\<rparr>,
         \<lparr>name = ''c'', version = ''1.2.3'', type = Dependencies\<rparr>] = 1
   \<and> class_count LatestTagged
        [\<lparr>name = ''a'', version = ''^latest'', type = Dependencies\<rparr>,
         \<lparr>name = ''b'', version = ''latest'', type = Dependencies\<rparr>,
         \<lparr>name = ''c'', version = ''1.2.3'', type = Dependencies\<rparr>] = 1
   \<and> class_count Pinned
        [\<lparr>name = ''a'', version = ''^latest'', type = Dependencies\<rparr>,
         \<lparr>name = ''b'', version = ''latest'', type = Dependencies\<rparr>,
         \<lparr>name = ''c'', version = ''1.2.3'', type = Dependencies\<rparr>] = 1\<close>
proof -
  have p: \<open>parse_examples ''{"dependencies":{"a":"^latest","b":"latest","c":"1.2.3"}}''
    = Some (JObj [(''dependencies'',
                   JObj [(''a'', JStr ''^latest''), (''b'', JStr ''latest''), (''c'', JStr ''1.2.3'')])])\<close>
    by (simp add: parse_examples_def)
  have ev: \<open>analyze parse_examples ''{"dependencies":{"a":"^latest","b":"latest","c":"1.2.3"}}''
   = Inr ([\<lparr>name = ''a'', version = ''^latest'', type = Dependencies\<rparr>,
           \<lparr>name = ''b'', version = ''latest'', type = Dependencies\<rparr>,
           \<lparr>name = ''c'', version = ''1.2.3'', type = Dependencies\<rparr>],
          \<lparr>total = 3, dependencies = 3, devDependencies = 0, peerDependencies = 0,
           specificVersions = 1, rangeVersions = 1, latestVersions = 1,
           issues = [''1 package(s) using "latest" version (not recommended for production)'',
                     ''Package name is missing'', ''Package version is missing'']\<rparr>)\<close>
    by (simp add: analyze_eval)
  from versions_classified
    [where ty = Dependencies and nm = "''a''" and v = "''^latest''" and ds = "[]"
       and s = 0 and r = 0 and l = 0, OF p ev]
  show ?thesis using ev by (simp add: class_count_def)
qed

lemma analyze_Inl:
  "(\<exists>err. analyze parse txt = Inl err) =
     (parse txt = None \<or> parse txt = Some JNull \<or>
      (\<exists>parsed. parse txt = Some parsed \<and>
         (\<exists>e \<in> set (manifest_entries parsed). \<not> is_string (snd e))))"
  by (cases "parse txt") (auto simp: analyze_def analyze_parsed_Inl)

text \<open>
  Claim C2, as stated, fails: the text \<^verbatim>\<open>5\<close> is valid JSON for a number, not an object,
  and the analysis returns an empty record list and a summary for it.
\<close>

theorem top_level_number_accepted:
  "parse_examples ''5'' = Some (JNum (Finite 5)) \<and>
   analyze parse_examples ''5'' =
     Inr ([], \<lparr>total = 0, dependencies = 0, devDependencies = 0, peerDependencies = 0,
               specificVersions = 0, rangeVersions = 0, latestVersions = 0,
               issues = [''No dependencies found'', ''Package name is missing'',
                         ''Package version is missing'']\<rparr>)"
  by (simp add: analyze_eval)

text \<open>
  Claim C2, amended. The analysis fails exactly when the text is not valid JSON, or parses to
  \<^verbatim>\<open>null\<close>, or some entry of a present dependency section has a value that is not a
  string. Any other top-level value that is not an object (a number, a string, a boolean, an
  array) is accepted as a manifest without fields.
\<close>

theorem analyze_fails_iff:
  "(\<exists>err. analyze parse txt = Inl err) =
     (parse txt = None \<or> parse txt = Some JNull \<or>
      (\<exists>parsed. parse txt = Some parsed \<and>
         (\<exists>e \<in> set (manifest_entries parsed). \<not> is_string (snd e))))"
  by (rule analyze_Inl)

theorem analyze_fails_iff_witness:
  "(\<exists>err. analyze parse_examples ''null'' = Inl err) \<and>
   parse_examples ''null'' = Some JNull \<and>
   \<not> (\<exists>err. analyze parse_examples ''5'' = Inl err)"
proof -
  have n: "parse_examples ''null'' = Some JNull" by (simp add: parse_examples_def)
  have f: "parse_examples ''5'' = Some (JNum (Finite 5))" by (simp add: parse_examples_def)
  have "manifest_entries (JNum (Finite 5)) = []"
    by (simp add: manifest_entries_def section_entries_def manifest_value_def)
  then show ?thesis
    using analyze_fails_iff [of parse_examples "''null''"]
      analyze_fails_iff [of parse_examples "''5''"] n f
    by simp
qed

text \<open>
  Claim C6. When the analysis fails, the handler leaves no records and no summary, whatever
  the state showed before; so does the malformed text \<^verbatim>\<open>{not json\<close>.
\<close>

theorem failure_clears_state:
  assumes "analyze parse txt = Inl err"
  shows "analyzePackageJson parse txt st =
           st\<lparr>dependencies := [], analysis := None, isAnalyzing := False\<rparr> \<and>
         checker_state.dependencies (analyzePackageJson parse txt st) = [] \<and>
         analysis (analyzePackageJson parse txt st) = None"
  using assms by (simp add: analyzePackageJson_def)

theorem failure_clears_state_witness:
  "analyze parse_examples ''{not json'' = Inl SyntaxError \<and>
   analyzePackageJson parse_examples ''{not json''
     \<lparr>packageJson = ''{not json'',
      dependencies = [\<lparr>name = ''react'', version = ''^18.2.0'', type = Dependencies\<rparr>],
      analysis = Some \<lparr>total = 1, dependencies = 1, devDependencies = 0, peerDependencies = 0,
                       specificVersions = 0, rangeVersions = 1, latestVersions = 0, issues = []\<rparr>,
      isAnalyzing = False\<rparr>
   = \<lparr>packageJson = ''{not json'', dependencies = [], analysis = None, isAnalyzing = False\<rparr>"
proof -
  have ev: "analyze parse_examples ''{not json'' = Inl SyntaxError"
    by (simp add: analyze_def parse_examples_def)
  from failure_clears_state [OF ev] show ?thesis using ev by simp
qed

text \<open>
  Claim C10. When a dependency section of a manifest object maps a package name to a value
  that is not a string, the analysis throws and takes the handler of malformed JSON: nothing
  partial is kept, the record list and the summary are cleared.
\<close>

theorem non_string_version_fails:
  assumes "parse txt = Some (JObj kvs)"
    and "k \<in> {''dependencies'', ''devDependencies'', ''peerDependencies''}"
    and "map_of kvs k = Some (JObj es)"
    and "(nm, v) \<in> set es"
    and "\<not> is_string v"
  shows "analyze parse txt = Inl TypeError \<and>
         analyzePackageJson parse txt st =
           st\<lparr>dependencies := [], analysis := None, isAnalyzing := False\<rparr> \<and>
         analyzePackageJson parse txt st = analyzePackageJson (\<lambda>t. None) txt st"
proof -
  have "section_entries (JObj kvs) k = es"
    using assms(3) by (simp add: section_entries_def manifest_value_def)
  then have "(nm, v) \<in> set (manifest_entries (JObj kvs))"
    using assms(2,4) by (auto simp: manifest_entries_def)
  then have "analyze_parsed (JObj kvs) = Inl TypeError"
    using assms(5) by (force simp: analyze_parsed_Inl)
  then have "analyze parse txt = Inl TypeError"
    using assms(1) by (simp add: analyze_def)
  then show ?thesis
    by (simp add: analyzePackageJson_def analyze_def)
qed

theorem non_string_version_fails_witness:
  \<open>analyze parse_examples ''{"name":"x","version":"1.0.0","peerDependencies":{"left-pad":1}}''
     = Inl TypeError \<and>
   analyzePackageJson parse_examples
     ''{"name":"x","version":"1.0.0","peerDependencies":{"left-pad":1}}''
     \<lparr>packageJson = ''{"name":"x","version":"1.0.0","peerDependencies":{"left-pad":1}}'',
      dependencies = [\<lparr>name = ''react'', version = ''^18.2.0'', type = Dependencies\<rparr>],
      analysis = Some \<lparr>total = 1, dependencies = 1, devDependencies = 0, peerDependencies = 0,
                       specificVersions = 0, rangeVersions = 1, latestVersions = 0, issues = []\<rparr>,
      isAnalyzing = False\<rparr>
   = \<lparr>packageJson = ''{"name":"x","version":"1.0.0","peerDependencies":{"left-pad":1}}'',
      dependencies = [], analysis = None, isAnalyzing = False\<rparr>\<close>
proof -
  have p: \<open>parse_examples ''{"name":"x","version":"1.0.0","peerDependencies":{"left-pad":1}}''
    = Some (JObj [(''name'', JStr ''x''), (''version'', JStr ''1.0.0''),
                  (''peerDependencies'', JObj [(''left-pad'', JNum (Finite 1))])])\<close>
    by (simp add: parse_examples_def)
  have k: "''peerDependencies'' \<in> {''dependencies'', ''devDependencies'', ''peerDependencies''}"
    by simp
  have m: "map_of [(''name'', JStr ''x''), (''version'', JStr ''1.0.0''),
                   (''peerDependencies'', JObj [(''left-pad'', JNum (Finite 1))])]
             ''peerDependencies'' = Some (JObj [(''left-pad'', JNum (Finite 1))])"
    by simp
  have e: "(''left-pad'', JNum (Finite 1)) \<in> set [(''left-pad'', JNum (Finite 1))]"
    by simp
  have s: "\<not> is_string (JNum (Finite 1))"
    by simp
  from non_string_version_fails [where parse = parse_examples, OF p k m e s]
  show ?thesis by simp
qed

lemma push_deprecated_append:
  "push_deprecated deps iss =
     iss @ map deprecated_issue (filter (\<lambda>n. n \<in> set deprecatedPackages) (map name deps))"
  by (induction deps arbitrary: iss) simp_all

lemma build_issues_eq:
  "build_issues deps latestV nameField versionField =
     (if latestV > 0 then [latest_issue latestV] else []) @
     (if deps = [] then [''No dependencies found''] else []) @
     (if truthy nameField then [] else [''Package name is missing'']) @
     (if truthy versionField then [] else [''Package version is missing'']) @
     map deprecated_issue (filter (\<lambda>n. n \<in> set deprecatedPackages) (map name deps))"
  by (simp add: build_issues_def push_deprecated_append)

lemma falsy_values:
  "(\<not> truthy field) =
     (field \<in> {None, Some JNull, Some (JBool False), Some (JNum (Finite 0)), Some (JStr [])})"
  by (cases field rule: truthy.cases) auto

text \<open>
  Claim C4, as stated, fails: this manifest has a name field (the empty string), and the
  analysis still reports the name as missing.
\<close>

theorem empty_name_reported_missing:
  \<open>parse_examples ''{"name":"","version":"1.0.0","dependencies":{"react":"1.0.0"}}''
     = Some (JObj [(''name'', JStr []), (''version'', JStr ''1.0.0''),
                   (''dependencies'', JObj [(''react'', JStr ''1.0.0'')])]) \<and>
   map_of [(''name'', JStr []), (''version'', JStr ''1.0.0''),
           (''dependencies'', JObj [(''react'', JStr ''1.0.0'')])] ''name'' = Some (JStr []) \<and>
   analyze parse_examples ''{"name":"","version":"1.0.0","dependencies":{"react":"1.0.0"}}''
     = Inr ([\<lparr>name = ''react'', version = ''1.0.0'', type = Dependencies\<rparr>],
            \<lparr>total = 1, dependencies = 1, devDependencies = 0, peerDependencies = 0,
             specificVersions = 1, rangeVersions = 0, latestVersions = 0,
             issues = [''Package name is missing'']\<rparr>)\<close>
  by (simp add: analyze_eval)

text \<open>
  Claim C4, amended. The issue list of an accepted analysis is, in this order: the
  latest-version warning when the latest counter is positive; \<^verbatim>\<open>No dependencies found\<close>
  when there is no record; \<^verbatim>\<open>Package name is missing\<close> when the manifest's name is absent
  or falsy (null, false, zero or the empty string); \<^verbatim>\<open>Package version is missing\<close> when
  its version is absent or falsy; then one deprecation message for each record named
  request, node-uuid or gulp-util, in record order.
\<close>

theorem issues_in_order:
  assumes "parse txt = Some parsed" and "analyze parse txt = Inr (deps, a)"
  shows "issues a =
     (if latestVersions a > 0 then [latest_issue (latestVersions a)] else []) @
     (if deps = [] then [''No dependencies found''] else []) @
     (if manifest_value parsed ''name''
           \<in> {None, Some JNull, Some (JBool False), Some (JNum (Finite 0)), Some (JStr [])}
      then [''Package name is missing''] else []) @
     (if manifest_value parsed ''version''
           \<in> {None, Some JNull, Some (JBool False), Some (JNum (Finite 0)), Some (JStr [])}
      then [''Package version is missing''] else []) @
     map deprecated_issue
       (filter (\<lambda>n. n \<in> {''request'', ''node-uuid'', ''gulp-util''}) (map name deps))"
proof -
  from assms have p: "analyze_parsed parsed = Inr (deps, a)"
    by (simp add: analyze_def)
  then obtain fn fv l where
    n: "manifest_field parsed ''name'' = Inr fn" and
    v: "manifest_field parsed ''version'' = Inr fv" and
    a: "issues a = build_issues deps l fn fv" "latestVersions a = l"
    by (rule analyze_parsed_Inr) simp
  have fn: "manifest_value parsed ''name'' = fn" using n by (simp add: manifest_value_def)
  have fv: "manifest_value parsed ''version'' = fv" using v by (simp add: manifest_value_def)
  have dp: "set deprecatedPackages = {''request'', ''node-uuid'', ''gulp-util''}"
    by (simp add: deprecatedPackages_def)
  let ?falsy = "{None, Some JNull, Some (JBool False), Some (JNum (Finite 0)), Some (JStr [])}"
  have t: "truthy fn = (fn \<notin> ?falsy)" "truthy fv = (fv \<notin> ?falsy)"
    using falsy_values [of fn] falsy_values [of fv] by blast+
  show ?thesis
    unfolding a build_issues_eq fn fv dp t
    by (cases "fn \<in> ?falsy"; cases "fv \<in> ?falsy"; simp)
qed

theorem issues_in_order_witness:
  \<open>analyze parse_examples ''{"dependencies":{"request":"1.0.0"}}''
     = Inr ([\<lparr>name = ''request'', version = ''1.0.0'', type = Dependencies\<rparr>],
            \<lparr>total = 1, dependencies = 1, devDependencies = 0, peerDependencies = 0,
             specificVersions = 1, rangeVersions = 0, latestVersions = 0,
             issues = [''Package name is missing'', ''Package version is missing'',
                       ''"request" is deprecated and should be replaced'']\<rparr>) \<and>
   [] @ [] @ [''Package name is missing''] @ [''Package version is missing''] @
     map deprecated_issue
       (filter (\<lambda>n. n \<in> {''request'', ''node-uuid'', ''gulp-util''}) [''request''])
   = [''Package name is missing'', ''Package version is missing'',
      ''"request" is deprecated and should be replaced'']\<close>
proof -
  have p: \<open>parse_examples ''{"dependencies":{"request":"1.0.0"}}''
     = Some (JObj [(''dependencies'', JObj [(''request'', JStr ''1.0.0'')])])\<close>
    by (simp add: parse_examples_def)
  have ev: \<open>analyze parse_examples ''{"dependencies":{"request":"1.0.0"}}''
     = Inr ([\<lparr>name = ''request'', version = ''1.0.0'', type = Dependencies\<rparr>],
            \<lparr>total = 1, dependencies = 1, devDependencies = 0, peerDependencies = 0,
             specificVersions = 1, rangeVersions = 0, latestVersions = 0,
             issues = [''Package name is missing'', ''Package version is missing'',
                       ''"request" is deprecated and should be replaced'']\<rparr>)\<close>
    by (simp add: analyze_eval)
  from issues_in_order [where parse = parse_examples, OF p ev] show ?thesis
    using ev by (simp add: manifest_value_def deprecated_issue_def)
qed


lemma map_absent:
  "k \<notin> fst ` set kvs \<Longrightarrow> map (\<lambda>kv. (fst kv, if fst kv = k then c else snd kv)) kvs = kvs"
  by (induction kvs) auto

lemma update_present:
  "distinct (map fst kvs) \<Longrightarrow> k \<in> fst ` set kvs \<Longrightarrow>
     AList.update k c kvs = map (\<lambda>kv. (fst kv, if fst kv = k then c else snd kv)) kvs"
proof (induction kvs)
  case Nil
  then show ?case by simp
next
  case (Cons kv kvs)
  show ?case
  proof (cases "fst kv = k")
    case True
    then have "k \<notin> fst ` set kvs" using Cons.prems(1) by auto
    then show ?thesis using True by (cases kv) (simp add: map_absent)
  next
    case False
    then have "k \<in> fst ` set kvs" using Cons.prems(2) by auto
    moreover have "distinct (map fst kvs)" using Cons.prems(1) by simp
    ultimately have "AList.update k c kvs = map (\<lambda>kv. (fst kv, if fst kv = k then c else snd kv)) kvs"
      by (rule Cons.IH [rotated])
    then show ?thesis using False by (cases kv) simp
  qed
qed

lemma fold_update_keys:
  "distinct (map fst kvs) \<Longrightarrow> set ks \<subseteq> fst ` set kvs \<Longrightarrow>
     fold (\<lambda>key. AList.update key c) ks kvs =
       map (\<lambda>kv. (fst kv, if fst kv \<in> set ks then c else snd kv)) kvs"
proof (induction ks arbitrary: kvs)
  case Nil
  then show ?case by simp
next
  case (Cons k ks)
  let ?kvs' = "map (\<lambda>kv. (fst kv, if fst kv = k then c else snd kv)) kvs"
  have u: "AList.update k c kvs = ?kvs'"
    using Cons.prems by (simp add: update_present)
  have keys: "map fst ?kvs' = map fst kvs"
    by (simp add: comp_def)
  have d: "distinct (map fst ?kvs')"
    using Cons.prems(1) by (simp only: keys)
  have "fst ` set ?kvs' = fst ` set kvs"
    using keys by (metis list.set_map)
  then have s: "set ks \<subseteq> fst ` set ?kvs'"
    using Cons.prems(2) by simp
  have "fold (\<lambda>key. AList.update key c) ks ?kvs' =
          map (\<lambda>kv. (fst kv, if fst kv \<in> set ks then c else snd kv)) ?kvs'"
    using d s by (rule Cons.IH)
  also have "\<dots> = map (\<lambda>kv. (fst kv, if fst kv \<in> set (k # ks) then c else snd kv)) kvs"
    by (simp add: comp_def)
  finally show ?case
    by (simp only: fold_simps u)
qed

lemma fold_update_all:
  assumes "distinct (map fst kvs)"
  shows "fold (\<lambda>key. AList.update key c) (map fst kvs) kvs = map (\<lambda>kv. (fst kv, c)) kvs"
proof -
  have "fold (\<lambda>key. AList.update key c) (map fst kvs) kvs =
          map (\<lambda>kv. (fst kv, if fst kv \<in> set (map fst kvs) then c else snd kv)) kvs"
    using assms by (intro fold_update_keys) simp_all
  also have "\<dots> = map (\<lambda>kv. (fst kv, c)) kvs"
    by (rule map_cong) simp_all
  finally show ?thesis .
qed

lemma fold_list_update_upt:
  "n \<le> length xs \<Longrightarrow>
     fold (\<lambda>i ys. ys[i := c]) [0..<n] xs = replicate n c @ drop n xs"
proof (induction n)
  case 0
  then show ?case by simp
next
  case (Suc n)
  then have "fold (\<lambda>i ys. ys[i := c]) [0..<Suc n] xs = (replicate n c @ drop n xs)[n := c]"
    by simp
  also have "\<dots> = replicate n c @ (drop n xs)[0 := c]"
    by (simp add: list_update_append)
  also have "\<dots> = replicate n c @ c # drop (Suc n) xs"
    using Suc.prems by (simp add: Cons_nth_drop_Suc [symmetric])
  also have "\<dots> = replicate (Suc n) c @ drop (Suc n) xs"
    by (simp add: replicate_append_same)
  finally show ?case .
qed

lemma index_entries_snd: "e \<in> set (index_entries i xs) \<Longrightarrow> snd e \<in> set xs"
  by (induction xs arbitrary: i) auto
lemma set_all_latest_entries:
  assumes "set_all_latest sec = Inr sec'"
    and "distinct_keys (Some sec)"
    and "truthy (Some sec)"
  shows "all_latest (Object_entries sec')"
proof (cases sec)
  case (JObj kvs)
  then have "sec' = JObj (map (\<lambda>kv. (fst kv, JStr ''latest'')) kvs)"
    using assms(1,2) by (simp add: fold_update_all)
  then show ?thesis by (simp add: all_latest_def)
next
  case (JArr xs)
  then have "sec' = JArr (replicate (length xs) (JStr ''latest''))"
    using assms(1) by (simp add: fold_list_update_upt)
  then show ?thesis
    by (auto simp: all_latest_def dest: index_entries_snd)
next
  case (JStr s)
  then show ?thesis using assms(1,3) by (simp split: if_splits)
next
  case JNull
  then show ?thesis using assms(3) by simp
next
  case (JBool b)
  then show ?thesis using assms(1) by (auto simp: all_latest_def)
next
  case (JNum n)
  then show ?thesis using assms(1) by (auto simp: all_latest_def)
qed

lemma manifest_value_store:
  "manifest_value (store_field k v (JObj kvs)) k' =
     (if k' = k then Some v else manifest_value (JObj kvs) k')"
  by (simp add: manifest_value_def update_conv')

lemma rewrite_section_cases:
  assumes "rewrite_section k parsed = Inr p'"
  obtains (same) "p' = parsed" "\<not> truthy (manifest_value parsed k)"
  | (stored) kvs sec sec' where "parsed = JObj kvs" "map_of kvs k = Some sec"
      "truthy (Some sec)" "set_all_latest sec = Inr sec'" "p' = store_field k sec' (JObj kvs)"
proof (cases parsed)
  case (JObj kvs)
  show ?thesis
  proof (cases "map_of kvs k")
    case None
    have "p' = parsed"
      using assms None JObj by (simp add: rewrite_section_def)
    moreover have "\<not> truthy (manifest_value parsed k)"
      using None JObj by (simp add: manifest_value_def)
    ultimately show ?thesis by (rule same)
  next
    case (Some sec)
    show ?thesis
    proof (cases "truthy (Some sec)")
      case False
      have "p' = parsed"
        using assms Some False JObj by (simp add: rewrite_section_def)
      moreover have "\<not> truthy (manifest_value parsed k)"
        using Some False JObj by (simp add: manifest_value_def)
      ultimately show ?thesis by (rule same)
    next
      case True
      then obtain sec' where "set_all_latest sec = Inr sec'" "p' = store_field k sec' (JObj kvs)"
        using assms JObj Some by (auto simp: rewrite_section_def split: sum.splits)
      then show ?thesis using JObj Some True by (intro stored)
    qed
  qed
next
  case JNull
  then show ?thesis using assms by (simp add: rewrite_section_def)
next
  case (JBool b)
  then show ?thesis using assms by (intro same) (auto simp: rewrite_section_def manifest_value_def)
next
  case (JNum n)
  then show ?thesis using assms by (intro same) (auto simp: rewrite_section_def manifest_value_def)
next
  case (JStr s)
  then show ?thesis using assms by (intro same) (auto simp: rewrite_section_def manifest_value_def)
next
  case (JArr xs)
  then show ?thesis using assms by (intro same) (auto simp: rewrite_section_def manifest_value_def)
qed

lemma rewrite_section_latest:
  assumes "rewrite_section k parsed = Inr p'"
    and "distinct_keys (manifest_value parsed k)"
  shows "all_latest (section_entries p' k)"
  using assms(1)
proof (cases rule: rewrite_section_cases)
  case same
  then show ?thesis
    by (cases "manifest_value parsed k") (simp_all add: section_entries_def all_latest_def)
next
  case (stored kvs sec sec')
  have "distinct_keys (Some sec)"
    using assms(2) stored(1,2) by (simp add: manifest_value_def)
  then have "all_latest (Object_entries sec')"
    using stored(3,4) by (intro set_all_latest_entries)
  then show ?thesis
    unfolding stored(5) section_entries_def manifest_value_store
    by (simp add: all_latest_def)
qed

lemma rewrite_section_other:
  assumes "rewrite_section k parsed = Inr p'" and "k' \<noteq> k"
  shows "manifest_value p' k' = manifest_value parsed k'"
  using assms(1)
proof (cases rule: rewrite_section_cases)
  case same
  then show ?thesis by simp
next
  case (stored kvs sec sec')
  then show ?thesis using assms(2) by (simp only: manifest_value_store) simp
qed

lemma rewrite_section_shape:
  assumes "rewrite_section k parsed = Inr p'"
  shows "(\<exists>kvs. p' = JObj kvs) \<or> (p' = parsed \<and> parsed \<noteq> JNull)"
  using assms
proof (cases rule: rewrite_section_cases)
  case same
  then show ?thesis using assms by (auto simp: rewrite_section_def)
next
  case (stored kvs sec sec')
  then show ?thesis by simp
qed

lemma rewrite_parsed_latest:
  assumes "rewrite_parsed parsed = Inr p'"
    and "distinct_keys (manifest_value parsed ''dependencies'')"
    and "distinct_keys (manifest_value parsed ''devDependencies'')"
    and "distinct_keys (manifest_value parsed ''peerDependencies'')"
  shows "all_latest (manifest_entries p')"
    and "(\<exists>kvs. p' = JObj kvs) \<or> (p' = parsed \<and> parsed \<noteq> JNull)"
proof -
  from assms(1) obtain p1 p2 where
    r1: "rewrite_section ''dependencies'' parsed = Inr p1" and
    r2: "rewrite_section ''devDependencies'' p1 = Inr p2" and
    r3: "rewrite_section ''peerDependencies'' p2 = Inr p'"
    by (auto simp: rewrite_parsed_def split: sum.splits)
  have d2: "distinct_keys (manifest_value p1 ''devDependencies'')"
    using assms(3) rewrite_section_other [OF r1, of "''devDependencies''"] by simp
  have d3: "distinct_keys (manifest_value p2 ''peerDependencies'')"
    using assms(4) rewrite_section_other [OF r1, of "''peerDependencies''"]
      rewrite_section_other [OF r2, of "''peerDependencies''"] by simp
  have "all_latest (section_entries p1 ''dependencies'')"
    using r1 assms(2) by (rule rewrite_section_latest)
  then have l1: "all_latest (section_entries p' ''dependencies'')"
    using rewrite_section_other [OF r2, of "''dependencies''"]
      rewrite_section_other [OF r3, of "''dependencies''"]
    by (simp add: section_entries_def)
  have "all_latest (section_entries p2 ''devDependencies'')"
    using r2 d2 by (rule rewrite_section_latest)
  then have l2: "all_latest (section_entries p' ''devDependencies'')"
    using rewrite_section_other [OF r3, of "''devDependencies''"]
    by (simp add: section_entries_def)
  have l3: "all_latest (section_entries p' ''peerDependencies'')"
    using r3 d3 by (rule rewrite_section_latest)
  show "all_latest (manifest_entries p')"
    using l1 l2 l3 by (auto simp: manifest_entries_def all_latest_def)
  show "(\<exists>kvs. p' = JObj kvs) \<or> (p' = parsed \<and> parsed \<noteq> JNull)"
    using rewrite_section_shape [OF r1] rewrite_section_shape [OF r2]
      rewrite_section_shape [OF r3]
    by (elim disjE exE conjE) (auto simp: rewrite_section_def split: sum.splits option.splits if_splits)
qed
lemma map_of_reserialized:
  "map_of (map (map_prod id reserialized) kvs) k = map_option reserialized (map_of kvs k)"
  by (induction kvs) auto

lemma manifest_value_reserialized:
  "manifest_value (reserialized p) k = map_option reserialized (manifest_value p k)"
  by (cases p) (auto simp: manifest_value_def map_of_reserialized split: jsnumber.splits)

lemma snd_set_index_entries: "snd ` set (index_entries i xs) = set xs"
  by (induction xs arbitrary: i) auto

lemma all_latest_index_entries:
  "all_latest (index_entries i xs) = (\<forall>x \<in> set xs. x = JStr ''latest'')"
  unfolding all_latest_def using snd_set_index_entries [of i xs] by auto

lemma field_entries_reserialized:
  assumes "all_latest (field_entries field)"
  shows "all_latest (field_entries (map_option reserialized field))"
proof (cases field)
  case None
  then show ?thesis by (simp add: all_latest_def)
next
  case (Some sec)
  show ?thesis
  proof (cases sec)
    case (JObj kvs)
    then show ?thesis using assms Some by (auto simp: all_latest_def)
  next
    case (JArr xs)
    then show ?thesis using assms Some by (auto simp: all_latest_index_entries)
  next
    case (JNum n)
    then show ?thesis using Some by (cases n) (simp_all add: all_latest_def)
  qed (use assms Some in simp_all)
qed

lemma manifest_entries_reserialized:
  assumes "all_latest (manifest_entries p)"
  shows "all_latest (manifest_entries (reserialized p))"
proof -
  have s: "\<And>k. all_latest (section_entries p k) \<Longrightarrow> all_latest (section_entries (reserialized p) k)"
    by (simp add: section_entries_def manifest_value_reserialized field_entries_reserialized)
  have u: "\<And>xs ys zs. all_latest (xs @ ys @ zs) = (all_latest xs \<and> all_latest ys \<and> all_latest zs)"
    by (auto simp: all_latest_def)
  from assms show ?thesis
    unfolding manifest_entries_def u
    using s [of "''dependencies''"] s [of "''devDependencies''"] s [of "''peerDependencies''"]
    by blast
qed

lemma class_count_all_latest:
  assumes "\<forall>d \<in> set deps. version d = ''latest''"
  shows "class_count LatestTagged deps = length deps"
    and "class_count RangeQualified deps = 0"
    and "class_count Pinned deps = 0"
  using assms by (induction deps) (simp_all add: class_count_def)

lemma analyze_parsed_all_latest:
  assumes "all_latest (manifest_entries p)" and "p \<noteq> JNull"
  shows "\<exists>deps a. analyze_parsed p = Inr (deps, a) \<and> latestVersions a = total a \<and>
           rangeVersions a = 0 \<and> specificVersions a = 0"
proof -
  have "\<And>err. analyze_parsed p \<noteq> Inl err"
    using assms by (auto simp: analyze_parsed_Inl all_latest_def)
  then obtain deps a where r: "analyze_parsed p = Inr (deps, a)"
    by (cases "analyze_parsed p") auto
  have "\<forall>d \<in> set deps. version d = ''latest''"
  proof
    fix d assume "d \<in> set deps"
    then have "record_entry d \<in> set (manifest_entries p)"
      using analyze_parsed_records [OF r] by (metis image_eqI list.set_map)
    then show "version d = ''latest''"
      using assms(1) by (auto simp: all_latest_def record_entry_def)
  qed
  then have "class_count LatestTagged deps = length deps"
    "class_count RangeQualified deps = 0" "class_count Pinned deps = 0"
    by (rule class_count_all_latest)+
  moreover have "tally_ok (deps, specificVersions a, rangeVersions a, latestVersions a)"
    "total a = length deps"
    using r by (rule analyze_parsed_tally)+
  ultimately show ?thesis using r by simp
qed

lemma set_all_latest_Inl:
  "(set_all_latest sec = Inl err) = (string_section (Some sec) \<and> err = TypeError)"
  by (cases sec) auto

lemma rewrite_section_Inl:
  "(rewrite_section k parsed = Inl err) =
     ((parsed = JNull \<or> string_section (manifest_value parsed k)) \<and> err = TypeError)"
proof (cases parsed)
  case JNull
  then show ?thesis by (auto simp: rewrite_section_def)
next
  case (JObj kvs)
  show ?thesis
  proof (cases "map_of kvs k")
    case None
    then show ?thesis using JObj by (simp add: rewrite_section_def manifest_value_def)
  next
    case (Some sec)
    have t: "string_section (Some sec) \<Longrightarrow> truthy (Some sec)"
      by (cases sec) simp_all
    show ?thesis
    proof (cases "string_section (Some sec)")
      case True
      then have "set_all_latest sec = Inl TypeError"
        by (simp add: set_all_latest_Inl)
      then show ?thesis
        using JObj Some True t by (auto simp: rewrite_section_def manifest_value_def)
    next
      case False
      then have "\<And>e. set_all_latest sec \<noteq> Inl e"
        by (simp add: set_all_latest_Inl)
      then show ?thesis
        using JObj Some False
        by (auto simp: rewrite_section_def manifest_value_def split: sum.splits)
    qed
  qed
qed (simp_all add: rewrite_section_def manifest_value_def)

lemma rewrite_section_not_null:
  assumes "rewrite_section k parsed = Inr p'"
  shows "p' \<noteq> JNull"
  using rewrite_section_shape [OF assms] by auto

lemma rewrite_parsed_Inl:
  "(rewrite_parsed parsed = Inl err) =
     ((parsed = JNull \<or> has_string_section parsed) \<and> err = TypeError)"
proof (cases "rewrite_section ''dependencies'' parsed")
  case (Inl e)
  then show ?thesis
    using rewrite_section_Inl [of "''dependencies''" parsed e]
    by (auto simp: rewrite_parsed_def has_string_section_def)
next
  case r1: (Inr p1)
  have n0: "parsed \<noteq> JNull" "\<not> string_section (manifest_value parsed ''dependencies'')"
    using r1 rewrite_section_Inl [of "''dependencies''" parsed TypeError] by auto
  have n1: "p1 \<noteq> JNull" using r1 by (rule rewrite_section_not_null)
  have v1: "manifest_value p1 ''devDependencies'' = manifest_value parsed ''devDependencies''"
    "manifest_value p1 ''peerDependencies'' = manifest_value parsed ''peerDependencies''"
    using r1 by (simp_all add: rewrite_section_other)
  show ?thesis
  proof (cases "rewrite_section ''devDependencies'' p1")
    case (Inl e)
    then show ?thesis
      using r1 n0 n1 v1 rewrite_section_Inl [of "''devDependencies''" p1 e]
      by (auto simp: rewrite_parsed_def has_string_section_def)
  next
    case r2: (Inr p2)
    have n2: "p2 \<noteq> JNull" using r2 by (rule rewrite_section_not_null)
    have s2: "\<not> string_section (manifest_value parsed ''devDependencies'')"
      using r2 n1 v1 rewrite_section_Inl [of "''devDependencies''" p1 TypeError] by auto
    have v2: "manifest_value p2 ''peerDependencies'' = manifest_value parsed ''peerDependencies''"
      using r2 v1 by (simp add: rewrite_section_other)
    show ?thesis
      using r1 r2 n0 n2 s2 v2 rewrite_section_Inl [of "''peerDependencies''" p2 err]
      by (auto simp: rewrite_parsed_def has_string_section_def)
  qed
qed

lemma rewriteAllVersionsToLatest_Inl:
  "(\<exists>err. rewriteAllVersionsToLatest parse stringify txt = Inl err) =
     (parse txt = None \<or> parse txt = Some JNull \<or>
      (\<exists>parsed. parse txt = Some parsed \<and> has_string_section parsed))"
proof (cases "parse txt")
  case None
  then show ?thesis by (simp add: rewriteAllVersionsToLatest_def)
next
  case (Some p)
  have "(\<exists>err. rewrite_parsed p = Inl err) = (p = JNull \<or> has_string_section p)"
    by (simp add: rewrite_parsed_Inl)
  moreover have "(\<exists>err. rewriteAllVersionsToLatest parse stringify txt = Inl err) =
      (\<exists>err. rewrite_parsed p = Inl err)"
    using Some by (cases "rewrite_parsed p") (simp_all add: rewriteAllVersionsToLatest_def)
  ultimately show ?thesis using Some by auto
qed

text \<open>
  Claim C3, as stated, fails twice. The text \<^verbatim>\<open>1e999\<close> is accepted by the analysis (it
  parses to Infinity, a value without fields); the update serialises it as \<^verbatim>\<open>null\<close>, and
  the analysis of that output throws, leaving no summary at all. The manifest
  \<^verbatim>\<open>{"dependencies":"ab"}\<close> is accepted too (its section enumerates as two one-letter
  versions); the update throws on it, gives no output and leaves the state as it was.
\<close>

theorem update_breaks_accepted_manifests:
  \<open>analyze parse_examples ''1e999'' =
     Inr ([], \<lparr>total = 0, dependencies = 0, devDependencies = 0, peerDependencies = 0,
               specificVersions = 0, rangeVersions = 0, latestVersions = 0,
               issues = [''No dependencies found'', ''Package name is missing'',
                         ''Package version is missing'']\<rparr>) \<and>
   rewriteAllVersionsToLatest parse_examples stringify_examples ''1e999'' = Inr ''null'' \<and>
   analyze parse_examples ''null'' = Inl TypeError \<and>
   analysis (updateToLatestVersions parse_examples stringify_examples
     \<lparr>packageJson = ''1e999'', dependencies = [], analysis = None, isAnalyzing = False\<rparr>) = None \<and>
   analyze parse_examples ''{"dependencies":"ab"}'' =
     Inr ([\<lparr>name = ''0'', version = ''a'', type = Dependencies\<rparr>,
           \<lparr>name = ''1'', version = ''b'', type = Dependencies\<rparr>],
          \<lparr>total = 2, dependencies = 2, devDependencies = 0, peerDependencies = 0,
           specificVersions = 2, rangeVersions = 0, latestVersions = 0,
           issues = [''Package name is missing'', ''Package version is missing'']\<rparr>) \<and>
   rewriteAllVersionsToLatest parse_examples stringify_examples ''{"dependencies":"ab"}''
     = Inl TypeError \<and>
   updateToLatestVersions parse_examples stringify_examples
     \<lparr>packageJson = ''{"dependencies":"ab"}'',
      dependencies = [\<lparr>name = ''0'', version = ''a'', type = Dependencies\<rparr>,
                      \<lparr>name = ''1'', version = ''b'', type = Dependencies\<rparr>],
      analysis = Some \<lparr>total = 2, dependencies = 2, devDependencies = 0, peerDependencies = 0,
                       specificVersions = 2, rangeVersions = 0, latestVersions = 0,
                       issues = [''Package name is missing'', ''Package version is missing'']\<rparr>,
      isAnalyzing = False\<rparr>
   = \<lparr>packageJson = ''{"dependencies":"ab"}'',
      dependencies = [\<lparr>name = ''0'', version = ''a'', type = Dependencies\<rparr>,
                      \<lparr>name = ''1'', version = ''b'', type = Dependencies\<rparr>],
      analysis = Some \<lparr>total = 2, dependencies = 2, devDependencies = 0, peerDependencies = 0,
                       specificVersions = 2, rangeVersions = 0, latestVersions = 0,
                       issues = [''Package name is missing'', ''Package version is missing'']\<rparr>,
      isAnalyzing = False\<rparr>\<close>
  by (simp add: analyze_eval rewriteAllVersionsToLatest_def rewrite_parsed_def
      rewrite_section_def stringify_examples_def updateToLatestVersions_def
      analyzePackageJson_def)

text \<open>
  Claim C3, amended. The update fails exactly when the text is not valid JSON, parses to
  \<^verbatim>\<open>null\<close>, or has a dependency section that is a non-empty string. On every manifest
  that the analysis accepts, whose top-level value is not a number beyond the double range
  and none of whose three sections is a non-empty string, the update returns an output, and
  the analysis of that output succeeds with \<open>latestVersions = total\<close> and
  \<open>rangeVersions = specificVersions = 0\<close>; this is the summary the handler leaves in the
  state. The platform is assumed to give objects with distinct keys and to read back what it
  serialised.
\<close>

theorem update_then_analyze_all_latest:
  "((\<exists>err. rewriteAllVersionsToLatest parse stringify txt = Inl err) =
      (parse txt = None \<or> parse txt = Some JNull \<or>
       (\<exists>p. parse txt = Some p \<and> has_string_section p))) \<and>
   (parse txt = Some parsed \<and>
    analyze parse txt = Inr (deps0, a0) \<and>
    parsed \<noteq> JNum PosInfinity \<and> parsed \<noteq> JNum NegInfinity \<and>
    \<not> has_string_section parsed \<and>
    distinct_keys (manifest_value parsed ''dependencies'') \<and>
    distinct_keys (manifest_value parsed ''devDependencies'') \<and>
    distinct_keys (manifest_value parsed ''peerDependencies'') \<and>
    (\<forall>p'. rewrite_parsed parsed = Inr p' \<longrightarrow> parse (stringify p') = Some (reserialized p'))
    \<longrightarrow>
    (\<exists>parsed' deps a.
       rewrite_parsed parsed = Inr parsed' \<and>
       rewriteAllVersionsToLatest parse stringify txt = Inr (stringify parsed') \<and>
       analyze parse (stringify parsed') = Inr (deps, a) \<and>
       latestVersions a = total a \<and> rangeVersions a = 0 \<and> specificVersions a = 0 \<and>
       analysis (updateToLatestVersions parse stringify (st\<lparr>packageJson := txt\<rparr>)) = Some a))"
proof (intro conjI impI)
  show "(\<exists>err. rewriteAllVersionsToLatest parse stringify txt = Inl err) =
      (parse txt = None \<or> parse txt = Some JNull \<or>
       (\<exists>p. parse txt = Some p \<and> has_string_section p))"
    by (rule rewriteAllVersionsToLatest_Inl)
next
  assume h: "parse txt = Some parsed \<and>
    analyze parse txt = Inr (deps0, a0) \<and>
    parsed \<noteq> JNum PosInfinity \<and> parsed \<noteq> JNum NegInfinity \<and>
    \<not> has_string_section parsed \<and>
    distinct_keys (manifest_value parsed ''dependencies'') \<and>
    distinct_keys (manifest_value parsed ''devDependencies'') \<and>
    distinct_keys (manifest_value parsed ''peerDependencies'') \<and>
    (\<forall>p'. rewrite_parsed parsed = Inr p' \<longrightarrow> parse (stringify p') = Some (reserialized p'))"
  then have p: "parse txt = Some parsed" and acc: "analyze_parsed parsed = Inr (deps0, a0)"
    by (auto simp: analyze_def)
  have nn0: "parsed \<noteq> JNull" using acc by (rule analyze_parsed_not_null)
  have "\<And>err. rewrite_parsed parsed \<noteq> Inl err"
    using nn0 h by (simp add: rewrite_parsed_Inl)
  then obtain parsed' where rw: "rewrite_parsed parsed = Inr parsed'"
    by (cases "rewrite_parsed parsed") auto
  have rt: "parse (stringify parsed') = Some (reserialized parsed')"
    using h rw by blast
  have d: "distinct_keys (manifest_value parsed ''dependencies'')"
    "distinct_keys (manifest_value parsed ''devDependencies'')"
    "distinct_keys (manifest_value parsed ''peerDependencies'')"
    using h by simp_all
  have out: "rewriteAllVersionsToLatest parse stringify txt = Inr (stringify parsed')"
    using p rw by (simp add: rewriteAllVersionsToLatest_def)
  have l: "all_latest (manifest_entries parsed')"
    using rw d by (rule rewrite_parsed_latest)
  have "(\<exists>kvs. parsed' = JObj kvs) \<or> (parsed' = parsed \<and> parsed \<noteq> JNull)"
    using rw d by (rule rewrite_parsed_latest)
  then have nn: "reserialized parsed' \<noteq> JNull"
  proof
    assume "\<exists>kvs. parsed' = JObj kvs"
    then show ?thesis by auto
  next
    assume "parsed' = parsed \<and> parsed \<noteq> JNull"
    then show ?thesis
      using h by (cases parsed) (auto split: jsnumber.splits)
  qed
  have "all_latest (manifest_entries (reserialized parsed'))"
    using l by (rule manifest_entries_reserialized)
  then obtain deps a where
    r: "analyze_parsed (reserialized parsed') = Inr (deps, a)" and
    c: "latestVersions a = total a" "rangeVersions a = 0" "specificVersions a = 0"
    using nn analyze_parsed_all_latest by blast
  have an: "analyze parse (stringify parsed') = Inr (deps, a)"
    using rt r by (simp add: analyze_def)
  have "analysis (updateToLatestVersions parse stringify (st\<lparr>packageJson := txt\<rparr>)) = Some a"
    using out an by (simp add: updateToLatestVersions_def analyzePackageJson_def)
  then show "\<exists>parsed' deps a.
       rewrite_parsed parsed = Inr parsed' \<and>
       rewriteAllVersionsToLatest parse stringify txt = Inr (stringify parsed') \<and>
       analyze parse (stringify parsed') = Inr (deps, a) \<and>
       latestVersions a = total a \<and> rangeVersions a = 0 \<and> specificVersions a = 0 \<and>
       analysis (updateToLatestVersions parse stringify (st\<lparr>packageJson := txt\<rparr>)) = Some a"
    using rw out an c by blast
qed

theorem update_then_analyze_all_latest_witness:
  \<open>rewriteAllVersionsToLatest parse_examples stringify_examples
     ''{"name":"x","version":"1.0.0","dependencies":{"react":"^18.2.0"},"devDependencies":{"vite":"5.0.0"}}''
   = Inr ''{\<newline>  "name": "x",\<newline>  "version": "1.0.0",\<newline>  "dependencies": {\<newline>    "react": "latest"\<newline>  },\<newline>  "devDependencies": {\<newline>    "vite": "latest"\<newline>  }\<newline>}'' \<and>
   analyze parse_examples
     ''{\<newline>  "name": "x",\<newline>  "version": "1.0.0",\<newline>  "dependencies": {\<newline>    "react": "latest"\<newline>  },\<newline>  "devDependencies": {\<newline>    "vite": "latest"\<newline>  }\<newline>}''
   = Inr ([\<lparr>name = ''react'', version = ''latest'', type = Dependencies\<rparr>,
           \<lparr>name = ''vite'', version = ''latest'', type = DevDependencies\<rparr>],
          \<lparr>total = 2, dependencies = 1, devDependencies = 1, peerDependencies = 0,
           specificVersions = 0, rangeVersions = 0, latestVersions = 2,
           issues = [''2 package(s) using "latest" version (not recommended for production)'']\<rparr>) \<and>
   (\<exists>err. rewriteAllVersionsToLatest parse_examples stringify_examples ''{"dependencies":"ab"}''
            = Inl err)\<close>
proof -
  let ?T = \<open>''{"name":"x","version":"1.0.0","dependencies":{"react":"^18.2.0"},"devDependencies":{"vite":"5.0.0"}}''\<close>
  let ?P = "JObj [(''name'', JStr ''x''), (''version'', JStr ''1.0.0''),
                  (''dependencies'', JObj [(''react'', JStr ''^18.2.0'')]),
                  (''devDependencies'', JObj [(''vite'', JStr ''5.0.0'')])]"
  let ?P' = "JObj [(''name'', JStr ''x''), (''version'', JStr ''1.0.0''),
                   (''dependencies'', JObj [(''react'', JStr ''latest'')]),
                   (''devDependencies'', JObj [(''vite'', JStr ''latest'')])]"
  have p: "parse_examples ?T = Some ?P"
    by (simp add: parse_examples_def)
  have acc: "analyze parse_examples ?T =
      Inr ([\<lparr>name = ''react'', version = ''^18.2.0'', type = Dependencies\<rparr>,
            \<lparr>name = ''vite'', version = ''5.0.0'', type = DevDependencies\<rparr>],
           \<lparr>total = 2, dependencies = 1, devDependencies = 1, peerDependencies = 0,
            specificVersions = 1, rangeVersions = 1, latestVersions = 0, issues = []\<rparr>)"
    by (simp add: analyze_eval)
  have rw: "rewrite_parsed ?P = Inr ?P'"
    by (simp add: rewrite_parsed_def rewrite_section_def)
  have n: "?P \<noteq> JNum PosInfinity" "?P \<noteq> JNum NegInfinity"
    by simp_all
  have s: "\<not> has_string_section ?P"
    by (simp add: has_string_section_def manifest_value_def)
  have d: "distinct_keys (manifest_value ?P ''dependencies'')"
    "distinct_keys (manifest_value ?P ''devDependencies'')"
    "distinct_keys (manifest_value ?P ''peerDependencies'')"
    by (simp_all add: manifest_value_def)
  have rt: "\<forall>p'. rewrite_parsed ?P = Inr p' \<longrightarrow>
      parse_examples (stringify_examples p') = Some (reserialized p')"
    by (simp add: rw parse_examples_def stringify_examples_def)
  have ev: \<open>analyze parse_examples (stringify_examples ?P')
     = Inr ([\<lparr>name = ''react'', version = ''latest'', type = Dependencies\<rparr>,
             \<lparr>name = ''vite'', version = ''latest'', type = DevDependencies\<rparr>],
            \<lparr>total = 2, dependencies = 1, devDependencies = 1, peerDependencies = 0,
             specificVersions = 0, rangeVersions = 0, latestVersions = 2,
             issues = [''2 package(s) using "latest" version (not recommended for production)'']\<rparr>)\<close>
    by (simp add: analyze_eval stringify_examples_def)
  have sp: \<open>parse_examples ''{"dependencies":"ab"}''
      = Some (JObj [(''dependencies'', JStr ''ab'')])\<close>
    by (simp add: parse_examples_def)
  have hs: "has_string_section (JObj [(''dependencies'', JStr ''ab'')])"
    by (simp add: has_string_section_def manifest_value_def)
  have \<open>\<exists>err. rewriteAllVersionsToLatest parse_examples stringify_examples
      ''{"dependencies":"ab"}'' = Inl err\<close>
    using update_then_analyze_all_latest
      [of parse_examples stringify_examples \<open>''{"dependencies":"ab"}''\<close>] sp hs
    by simp
  moreover have "rewriteAllVersionsToLatest parse_examples stringify_examples ?T
      = Inr (stringify_examples ?P')"
    using update_then_analyze_all_latest [of parse_examples stringify_examples ?T ?P]
      p acc n s d rt rw
    by auto
  ultimately show ?thesis
    using ev by (simp add: stringify_examples_def)
qed

section \<open>Properties of the README generator and of the badge templates\<close>

lemma append_badges_eq:
  "append_badges enc bs readme =
     (case rendered_badges enc bs of
        Inl err \<Rightarrow> Inl err
      | Inr snippets \<Rightarrow> Inr (readme @ snippets))"
proof (induction bs arbitrary: readme)
  case Nil
  then show ?case by simp
next
  case (Cons b bs)
  show ?case
  proof (cases "find_template enc (Badge.type b)")
    case None
    then show ?thesis
      by (simp add: Cons.IH generateBadgeMarkdown_def split: sum.splits)
  next
    case (Some t)
    then show ?thesis
      by (simp add: Cons.IH generateBadgeMarkdown_def split: sum.splits)
  qed
qed

lemma append_features_eq:
  "append_features fs readme =
     readme @ concat (map (\<lambda>line. js ''- '' @ trim line @ js ''\<newline>'') fs)"
  by (induction fs arbitrary: readme) simp_all

lemma append_licenses_eq:
  "append_licenses ls readme =
     readme @ concat (map (\<lambda>license. js ''- '' @ license @ js ''\<newline>'') ls)"
  by (induction ls arbitrary: readme) simp_all

lemma trim_empty: "(trim s = []) = blank s"
proof -
  have "(dropWhile is_space s = []) = (\<forall>c \<in> set s. is_space c)"
    by simp
  moreover have "(\<forall>c \<in> set (dropWhile is_space s). is_space c) = (dropWhile is_space s = [])"
    by (metis dropWhile_eq_Nil_conv dropWhile_idem)
  ultimately show ?thesis
    by (simp add: trim_def blank_def list_all_iff)
qed



lemma if_append_same: "(if c then r @ x else r) = r @ (if c then x else [])"
  by simp

lemma license_section_eq:
  "length (selectedLicenses st) > 0 \<Longrightarrow>
   license_section st =
     (if length (selectedLicenses st) = 1
      then js ''## License\<newline>\<newline>'' @ js ''This project is licensed under the '' @
           selectedLicenses st ! 0 @ js '' License.\<newline>\<newline>''
      else js ''## License\<newline>\<newline>'' @
           js ''This project is licensed under multiple licenses:\<newline>\<newline>'' @
           concat (map (\<lambda>license. js ''- '' @ license @ js ''\<newline>'') (selectedLicenses st)) @
           js ''\<newline>'')"
  by (cases "selectedLicenses st" rule: remdups_adj.cases) (simp_all add: license_section_def)

text \<open>The part of \<^verbatim>\<open>generateReadme\<close> after the badges, from any text accumulated so far.\<close>

lemma readme_tail:
  "(let readme = (if description st \<noteq> []
                    then r @ js ''## Description\<newline>\<newline>'' @ description st @ js ''\<newline>\<newline>''
                    else r);
          readme = (if features st \<noteq> []
                    then append_features
                           (filter (\<lambda>f. trim f \<noteq> []) (split_on 0x000A (features st)))
                           (readme @ js ''## Features\<newline>\<newline>'') @ js ''\<newline>''
                    else readme);
          readme = (if installation st \<noteq> []
                    then readme @ js ''## Installation\<newline>\<newline>```bash\<newline>'' @ installation st @
                         js ''\<newline>```\<newline>\<newline>''
                    else readme);
          readme = (if usage st \<noteq> []
                    then readme @ js ''## Usage\<newline>\<newline>```bash\<newline>'' @ usage st @
                         js ''\<newline>```\<newline>\<newline>''
                    else readme);
          readme = (if contributing st \<noteq> []
                    then readme @ js ''## Contributing\<newline>\<newline>'' @ contributing st @ js ''\<newline>\<newline>''
                    else readme);
          readme = (if length (selectedLicenses st) > 0
                    then (if length (selectedLicenses st) = 1
                          then readme @ js ''## License\<newline>\<newline>'' @
                               js ''This project is licensed under the '' @
                               selectedLicenses st ! 0 @ js '' License.\<newline>\<newline>''
                          else append_licenses (selectedLicenses st)
                                 (readme @ js ''## License\<newline>\<newline>'' @
                                  js ''This project is licensed under multiple licenses:\<newline>\<newline>'') @
                               js ''\<newline>'')
                    else readme);
          readme = (if author st \<noteq> []
                    then readme @ js ''## Author\<newline>\<newline>'' @ author st @ js ''\<newline>''
                    else readme)
      in Inr (if readme \<noteq> [] then readme else placeholder) :: error + jsstring)
   = (let doc = r @
                (if description st \<noteq> [] then description_section st else []) @
                (if features st \<noteq> [] then features_section st else []) @
                (if installation st \<noteq> [] then installation_section st else []) @
                (if usage st \<noteq> [] then usage_section st else []) @
                (if contributing st \<noteq> [] then contributing_section st else []) @
                (if selectedLicenses st \<noteq> [] then license_section st else []) @
                (if author st \<noteq> [] then author_section st else [])
      in Inr (if doc \<noteq> [] then doc else placeholder))"
proof -
  have lic: "(if length (selectedLicenses st) > 0
       then (if length (selectedLicenses st) = 1
             then q @ js ''## License\<newline>\<newline>'' @
                  js ''This project is licensed under the '' @ selectedLicenses st ! 0 @
                  js '' License.\<newline>\<newline>''
             else append_licenses (selectedLicenses st)
                    (q @ js ''## License\<newline>\<newline>'' @
                     js ''This project is licensed under multiple licenses:\<newline>\<newline>'') @
                  js ''\<newline>'')
       else q) = q @ (if selectedLicenses st \<noteq> [] then license_section st else [])" for q
  proof (cases "selectedLicenses st = []")
    case True
    then show ?thesis by simp
  next
    case False
    then have pos: "length (selectedLicenses st) > 0" by simp
    show ?thesis
    proof (cases "length (selectedLicenses st) = 1")
      case True
      then show ?thesis using False by (simp add: license_section_eq)
    next
      case False
      then show ?thesis using pos by (simp add: license_section_eq append_licenses_eq)
    qed
  qed
  have feat: "append_features (filter (\<lambda>f. trim f \<noteq> []) (split_on 0x000A (features st)))
        (q @ js ''## Features\<newline>\<newline>'') @ js ''\<newline>'' = q @ features_section st" for q
    by (simp add: append_features_eq features_section_def feature_items_def trim_empty)
  have d: "q @ js ''## Description\<newline>\<newline>'' @ description st @ js ''\<newline>\<newline>''
      = q @ description_section st" for q
    by (simp add: description_section_def)
  have i: "q @ js ''## Installation\<newline>\<newline>```bash\<newline>'' @ installation st @ js ''\<newline>```\<newline>\<newline>''
      = q @ installation_section st" for q
    by (simp add: installation_section_def fenced_def js_def)
  have u: "q @ js ''## Usage\<newline>\<newline>```bash\<newline>'' @ usage st @ js ''\<newline>```\<newline>\<newline>''
      = q @ usage_section st" for q
    by (simp add: usage_section_def fenced_def js_def)
  have c: "q @ js ''## Contributing\<newline>\<newline>'' @ contributing st @ js ''\<newline>\<newline>''
      = q @ contributing_section st" for q
    by (simp add: contributing_section_def)
  have a: "q @ js ''## Author\<newline>\<newline>'' @ author st @ js ''\<newline>'' = q @ author_section st" for q
    by (simp add: author_section_def)
  show ?thesis
    unfolding Let_def lic feat d i u c a if_append_same
    by (simp only: append_assoc)
qed

lemma generateReadme_sections:
  "generateReadme enc st =
     (case rendered_badges enc (badges st) of
        Inl err \<Rightarrow> Inl err
      | Inr snippets \<Rightarrow>
          Inr (let doc = (if projectName st \<noteq> [] then title_section st else []) @
                         (if badges st \<noteq> [] then badges_section snippets else []) @
                         (if description st \<noteq> [] then description_section st else []) @
                         (if features st \<noteq> [] then features_section st else []) @
                         (if installation st \<noteq> [] then installation_section st else []) @
                         (if usage st \<noteq> [] then usage_section st else []) @
                         (if contributing st \<noteq> [] then contributing_section st else []) @
                         (if selectedLicenses st \<noteq> [] then license_section st else []) @
                         (if author st \<noteq> [] then author_section st else [])
               in if doc \<noteq> [] then doc else placeholder))"
proof (cases "badges st = []")
  case True
  then show ?thesis
    unfolding generateReadme_def readme_tail
    by (simp add: Let_def title_section_def split del: if_split cong: if_cong)
next
  case False
  show ?thesis
  proof (cases "rendered_badges enc (badges st)")
    case (Inl err)
    then show ?thesis
      using False
      unfolding generateReadme_def readme_tail
      by (simp add: Let_def append_badges_eq split del: if_split cong: if_cong)
  next
    case (Inr snippets)
    then show ?thesis
      using False
      unfolding generateReadme_def readme_tail
      by (simp add: Let_def append_badges_eq title_section_def badges_section_def
          split del: if_split cong: if_cong)
  qed
qed



lemma generateBadgeMarkdown_Inl:
  "(\<exists>err. generateBadgeMarkdown enc b = Inl err) = badge_throws enc b"
proof -
  have c: "js ''custom'' \<noteq> js ''license''"
    by (simp add: js_def)
  consider (license) "Badge.type b = js ''license''"
    | (custom) "Badge.type b = js ''custom''"
    | (other) "Badge.type b \<noteq> js ''license''" "Badge.type b \<noteq> js ''custom''"
    by blast
  then show ?thesis
  proof cases
    case license
    then show ?thesis
      by (auto simp: generateBadgeMarkdown_def find_template_def badgeTemplates_def
          badge_throws_def js_def split: sum.splits)
  next
    case custom
    then show ?thesis
      by (auto simp: generateBadgeMarkdown_def find_template_def badgeTemplates_def
          badge_throws_def js_def split: sum.splits)
  next
    case other
    then show ?thesis
      by (simp add: generateBadgeMarkdown_def find_template_def badgeTemplates_def
          badge_throws_def)
  qed
qed

lemma rendered_badges_Inl:
  "(\<exists>err. rendered_badges enc bs = Inl err) = (\<exists>b \<in> set bs. badge_throws enc b)"
proof (induction bs)
  case Nil
  then show ?case by simp
next
  case (Cons b bs)
  show ?case
  proof (cases "generateBadgeMarkdown enc b")
    case (Inl err)
    then have "badge_throws enc b"
      using generateBadgeMarkdown_Inl [of enc b] by auto
    then show ?thesis using Inl by simp
  next
    case (Inr md)
    then have "\<not> badge_throws enc b"
      using generateBadgeMarkdown_Inl [of enc b] by auto
    then show ?thesis
      using Inr Cons.IH by (cases "rendered_badges enc bs") auto
  qed
qed

text \<open>
  Claim C8, as stated, fails: with a custom badge whose label is a lone surrogate,
  \<^verbatim>\<open>encodeURIComponent\<close> throws a URIError while the badge renders, and the generator
  returns no text at all.
\<close>

theorem readme_throws_on_lone_surrogate:
  "generateBadgeMarkdown encode_examples
     \<lparr>badge_id = js ''q1w2e3r4t'', type = js ''custom'', url = js ''ci'',
      label = Some [0xD800], message = None, color = Some (js ''blue'')\<rparr> = Inl URIError \<and>
   generateReadme encode_examples surrogate_readme = Inl URIError"
  by (simp add: generateReadme_def surrogate_readme_def generateBadgeMarkdown_def
      find_template_def badgeTemplates_def encode_examples_def js_def)

text \<open>
  Claim C8, amended. The generator never returns an empty text. It returns a text unless
  \<^verbatim>\<open>encodeURIComponent\<close> throws while a license or a custom badge renders, and then it
  throws; with every field empty it returns the fixed placeholder document.
\<close>

theorem readme_never_empty:
  "generateReadme enc st \<noteq> Inr [] \<and>
   ((\<exists>err. generateReadme enc st = Inl err) = (\<exists>b \<in> set (badges st). badge_throws enc b)) \<and>
   (projectName st = [] \<and> badges st = [] \<and> description st = [] \<and> features st = [] \<and>
    installation st = [] \<and> usage st = [] \<and> contributing st = [] \<and>
    selectedLicenses st = [] \<and> author st = []
    \<longrightarrow> generateReadme enc st =
          Inr (js ''# My Project\<newline>\<newline>Add project details to generate README''))"
proof (intro conjI)
  have ph: "placeholder \<noteq> []"
    by (simp add: placeholder_def js_def)
  show "generateReadme enc st \<noteq> Inr []"
    unfolding generateReadme_sections Let_def
    using ph by (cases "rendered_badges enc (badges st)") (simp_all split del: if_split, auto)
  show "(\<exists>err. generateReadme enc st = Inl err) = (\<exists>b \<in> set (badges st). badge_throws enc b)"
    unfolding rendered_badges_Inl [symmetric] generateReadme_sections
    by (cases "rendered_badges enc (badges st)") simp_all
  show "projectName st = [] \<and> badges st = [] \<and> description st = [] \<and> features st = [] \<and>
    installation st = [] \<and> usage st = [] \<and> contributing st = [] \<and>
    selectedLicenses st = [] \<and> author st = []
    \<longrightarrow> generateReadme enc st =
          Inr (js ''# My Project\<newline>\<newline>Add project details to generate README'')"
    by (simp add: generateReadme_sections placeholder_def)
qed

theorem readme_never_empty_witness:
  "generateReadme encode_examples empty_readme =
     Inr (js ''# My Project\<newline>\<newline>Add project details to generate README'') \<and>
   generateReadme encode_examples empty_readme \<noteq> Inr [] \<and>
   (\<exists>err. generateReadme encode_examples surrogate_readme = Inl err) \<and>
   \<not> (\<exists>err. generateReadme encode_examples example_readme = Inl err)"
proof -
  have e: "projectName empty_readme = [] \<and> badges empty_readme = [] \<and>
    description empty_readme = [] \<and> features empty_readme = [] \<and>
    installation empty_readme = [] \<and> usage empty_readme = [] \<and>
    contributing empty_readme = [] \<and> selectedLicenses empty_readme = [] \<and>
    author empty_readme = []"
    by (simp add: empty_readme_def)
  have s: "\<exists>b \<in> set (badges surrogate_readme). badge_throws encode_examples b"
    by (simp add: surrogate_readme_def badge_throws_def encode_examples_def)
  have x: "\<not> (\<exists>b \<in> set (badges example_readme). badge_throws encode_examples b)"
    by (simp add: example_readme_def badge_throws_def encode_examples_def js_def)
  show ?thesis
    using readme_never_empty [of encode_examples empty_readme]
      readme_never_empty [of encode_examples surrogate_readme]
      readme_never_empty [of encode_examples example_readme] e s x
    by blast
qed

text \<open>
  Claim C9, as stated, fails: the build-status template does not embed the identifier at
  all; two different identifiers render the same constant badge.
\<close>

theorem build_status_drops_identifier:
  "generateBadgeMarkdown encode_examples
     \<lparr>badge_id = js ''k3j2h1g9a'', type = js ''build-status'',
      url = js ''https://github.com/user/repo/actions'',
      label = None, message = None, color = Some (js ''blue'')\<rparr>
     = Inr (js ''![Build Status](https://img.shields.io/badge/build-passing-brightgreen)'') \<and>
   generateBadgeMarkdown encode_examples
     \<lparr>badge_id = js ''k3j2h1g9a'', type = js ''build-status'',
      url = js ''https://ci.example.org/other/project'',
      label = None, message = None, color = Some (js ''blue'')\<rparr>
     = Inr (js ''![Build Status](https://img.shields.io/badge/build-passing-brightgreen)'')"
  by (simp add: generateBadgeMarkdown_def find_template_def badgeTemplates_def js_def)

text \<open>
  Claim C9, amended. Every template other than \<^verbatim>\<open>custom\<close> ignores the label, message and
  color arguments. The two npm and the four GitHub templates put the identifier, as it is,
  into a fixed shields.io address; the license template puts its URI-component encoding
  there; build-status and coverage render a constant that does not depend on the
  identifier. Only \<^verbatim>\<open>custom\<close> renders from label, message and color (with the defaults
  \<^verbatim>\<open>label\<close>, \<^verbatim>\<open>message\<close>, \<^verbatim>\<open>blue\<close>). Where \<^verbatim>\<open>encodeURIComponent\<close> throws, so does the
  rendering.
\<close>

theorem badge_rendering:
  "(\<forall>t \<in> set (badgeTemplates enc). BadgeTemplate.type t \<noteq> js ''custom'' \<longrightarrow>
      generateMarkdown t u l m c = generateMarkdown t u None None None) \<and>
   generateBadgeMarkdown enc (b\<lparr>Badge.type := js ''npm-version''\<rparr>)
     = Inr (js ''![npm](https://img.shields.io/npm/v/'' @ url b @ js '')'') \<and>
   generateBadgeMarkdown enc (b\<lparr>Badge.type := js ''npm-downloads''\<rparr>)
     = Inr (js ''![npm](https://img.shields.io/npm/dm/'' @ url b @ js '')'') \<and>
   generateBadgeMarkdown enc (b\<lparr>Badge.type := js ''github-stars''\<rparr>)
     = Inr (js ''![GitHub stars](https://img.shields.io/github/stars/'' @ url b @ js '')'') \<and>
   generateBadgeMarkdown enc (b\<lparr>Badge.type := js ''github-forks''\<rparr>)
     = Inr (js ''![GitHub forks](https://img.shields.io/github/forks/'' @ url b @ js '')'') \<and>
   generateBadgeMarkdown enc (b\<lparr>Badge.type := js ''github-issues''\<rparr>)
     = Inr (js ''![GitHub issues](https://img.shields.io/github/issues/'' @ url b @ js '')'') \<and>
   generateBadgeMarkdown enc (b\<lparr>Badge.type := js ''github-license''\<rparr>)
     = Inr (js ''![GitHub license](https://img.shields.io/github/license/'' @ url b @ js '')'') \<and>
   generateBadgeMarkdown enc (b\<lparr>Badge.type := js ''license''\<rparr>)
     = (case enc (url b) of
          Inl err \<Rightarrow> Inl err
        | Inr encodedUrl \<Rightarrow>
            Inr (js ''![License](https://img.shields.io/badge/license-'' @ encodedUrl @
                 js ''-blue)'')) \<and>
   generateBadgeMarkdown enc (b\<lparr>Badge.type := js ''build-status''\<rparr>)
     = Inr (js ''![Build Status](https://img.shields.io/badge/build-passing-brightgreen)'') \<and>
   generateBadgeMarkdown enc (b\<lparr>Badge.type := js ''coverage''\<rparr>)
     = Inr (js ''![Coverage](https://img.shields.io/badge/coverage-95%25-brightgreen)'') \<and>
   generateBadgeMarkdown enc (b\<lparr>Badge.type := js ''custom''\<rparr>)
     = (case enc (default_arg (js ''label'') (Badge.label b)) of
          Inl err \<Rightarrow> Inl err
        | Inr encodedLabel \<Rightarrow>
        (case enc (default_arg (js ''message'') (message b)) of
          Inl err \<Rightarrow> Inl err
        | Inr encodedMessage \<Rightarrow>
            Inr (js ''!['' @ default_arg (js ''label'') (Badge.label b) @
                 js ''](https://img.shields.io/badge/'' @ encodedLabel @ js ''-'' @
                 encodedMessage @ js ''-'' @ default_arg (js ''blue'') (color b) @ js '')'')))"
proof -
  have "\<forall>t \<in> set (badgeTemplates enc). BadgeTemplate.type t \<noteq> js ''custom'' \<longrightarrow>
      generateMarkdown t u l m c = generateMarkdown t u None None None"
    by (simp add: badgeTemplates_def)
  moreover have "find_template enc (js ''npm-version'') = Some (badgeTemplates enc ! 0)"
    "find_template enc (js ''npm-downloads'') = Some (badgeTemplates enc ! 1)"
    "find_template enc (js ''github-stars'') = Some (badgeTemplates enc ! 2)"
    "find_template enc (js ''github-forks'') = Some (badgeTemplates enc ! 3)"
    "find_template enc (js ''github-issues'') = Some (badgeTemplates enc ! 4)"
    "find_template enc (js ''github-license'') = Some (badgeTemplates enc ! 5)"
    "find_template enc (js ''build-status'') = Some (badgeTemplates enc ! 6)"
    "find_template enc (js ''coverage'') = Some (badgeTemplates enc ! 7)"
    "find_template enc (js ''license'') = Some (badgeTemplates enc ! 8)"
    "find_template enc (js ''custom'') = Some (badgeTemplates enc ! 9)"
    by (simp_all add: find_template_def badgeTemplates_def js_def)
  ultimately show ?thesis
    by (simp add: generateBadgeMarkdown_def badgeTemplates_def)
qed

theorem badge_rendering_witness:
  "length (filter (\<lambda>t. BadgeTemplate.type t \<noteq> js ''custom'') (badgeTemplates encode_examples)) = 9 \<and>
   list_all (\<lambda>t. BadgeTemplate.type t \<noteq> js ''custom'' \<longrightarrow>
               generateMarkdown t (js ''facebook/react'') (Some (js ''stars'')) (Some (js ''many''))
                   (Some (js ''red''))
                 = generateMarkdown t (js ''facebook/react'') None None None)
     (badgeTemplates encode_examples) \<and>
   generateBadgeMarkdown encode_examples
     \<lparr>badge_id = js ''k3j2h1g9a'', type = js ''github-stars'', url = js ''facebook/react'',
      label = Some (js ''stars''), message = Some (js ''many''), color = Some (js ''red'')\<rparr>
     = Inr (js ''![GitHub stars](https://img.shields.io/github/stars/facebook/react)'') \<and>
   generateBadgeMarkdown encode_examples
     \<lparr>badge_id = js ''k3j2h1g9a'', type = js ''custom'', url = js ''facebook/react'',
      label = Some (js ''stars''), message = Some (js ''many''), color = Some (js ''red'')\<rparr>
     = Inr (js ''![stars](https://img.shields.io/badge/stars-many-red)'')"
proof -
  have n: "length (filter (\<lambda>t. BadgeTemplate.type t \<noteq> js ''custom'')
      (badgeTemplates encode_examples)) = 9"
    by (simp add: badgeTemplates_def js_def)
  have e: "encode_examples (js ''stars'') = Inr (js ''stars'')"
    "encode_examples (js ''many'') = Inr (js ''many'')"
    by (simp_all add: encode_examples_def js_def)
  from badge_rendering [of encode_examples "js ''facebook/react''" "Some (js ''stars'')"
      "Some (js ''many'')" "Some (js ''red'')"
      "\<lparr>badge_id = js ''k3j2h1g9a'', type = js ''github-stars'', url = js ''facebook/react'',
        label = Some (js ''stars''), message = Some (js ''many''), color = Some (js ''red'')\<rparr>"]
  show ?thesis
    using n by (simp add: e list_all_iff) (simp add: js_def)
qed

end
